theory Spec2Isabelle
  imports Main
begin

section \<open>Effects of the JavaScript hooks\<close>

text \<open>
  The hooks \<open>globalSetup\<close> and \<open>globalTeardown\<close> are sequences of calls into the browser
  automation library, the file system and the console. A run is modelled by the list of
  observable events it produces, in order, together with how it ends: \<open>Inr v\<close> when the
  async function resolves with \<open>v\<close>, \<open>Inl m\<close> when it rejects with an error whose message
  is \<open>m\<close>. What each external call does is read from a record describing the world of
  the run: \<open>None\<close> means the call succeeds, \<open>Some m\<close> that it throws an error with message
  \<open>m\<close>. Console texts are given without their leading pictographs.
\<close>

datatype json =
    JString string
  | JNumber int
  | JArray "json list"
  | JObject "(string \<times> json) list"

datatype api =
    ChromiumLaunch
  | NewContext
  | NewPage
  | Goto string
  | WaitForLoadState string
  | Title
  | StorageState string
  | BrowserClose
  | UnlinkSync string
  | WriteFileSync string json nat
    \<comment> \<open>\<open>fs.writeFileSync(path, JSON.stringify(value, null, indent))\<close>\<close>

datatype event =
    ConsoleLog string
  | ConsoleWarn string
  | ConsoleError string
  | Call api

type_synonym 'a js = "event list \<times> (string + 'a)"

definition js_return :: "'a \<Rightarrow> 'a js" where
  "js_return v = ([], Inr v)"

definition js_throw :: "string \<Rightarrow> 'a js" where
  "js_throw m = ([], Inl m)"

definition js_bind :: "'a js \<Rightarrow> ('a \<Rightarrow> 'b js) \<Rightarrow> 'b js" where
  "js_bind r f =
     (case r of
        (es, Inl m) \<Rightarrow> (es, Inl m)
      | (es, Inr v) \<Rightarrow> (case f v of (es', r') \<Rightarrow> (es @ es', r')))"

definition js_try_catch :: "'a js \<Rightarrow> (string \<Rightarrow> 'a js) \<Rightarrow> 'a js" where
  "js_try_catch body handler =
     (case body of
        (es, Inl m) \<Rightarrow> (case handler m of (es', r') \<Rightarrow> (es @ es', r'))
      | (es, Inr v) \<Rightarrow> (es, Inr v))"

definition js_try_finally :: "'a js \<Rightarrow> unit js \<Rightarrow> 'a js" where
  \<comment> \<open>the finally block always runs; when it throws, its error replaces the outcome\<close>
  "js_try_finally body fin =
     (case body of (es, r) \<Rightarrow>
        (case fin of
           (es', Inl m) \<Rightarrow> (es @ es', Inl m)
         | (es', Inr _) \<Rightarrow> (es @ es', r)))"

definition console_log :: "string \<Rightarrow> unit js" where
  "console_log s = ([ConsoleLog s], Inr ())"

definition console_warn :: "string \<Rightarrow> unit js" where
  "console_warn s = ([ConsoleWarn s], Inr ())"

definition console_error :: "string \<Rightarrow> unit js" where
  "console_error s = ([ConsoleError s], Inr ())"

definition call :: "api \<Rightarrow> string option \<Rightarrow> unit js" where
  "call a outcome =
     ([Call a], case outcome of None \<Rightarrow> Inr () | Some m \<Rightarrow> Inl m)"

definition call_value :: "api \<Rightarrow> string + 'a \<Rightarrow> 'a js" where
  "call_value a outcome = ([Call a], outcome)"

definition events :: "'a js \<Rightarrow> event list" where
  "events r = fst r"

definition returns_normally :: "'a js \<Rightarrow> bool" where
  "returns_normally r = (case snd r of Inl _ \<Rightarrow> False | Inr _ \<Rightarrow> True)"

definition thrown :: "'a js \<Rightarrow> string option" where
  "thrown r = (case snd r of Inl m \<Rightarrow> Some m | Inr _ \<Rightarrow> None)"

section \<open>Global setup\<close>

record browser_world =
  launch_result :: "string option"
  newContext_result :: "string option"
  newPage_result :: "string option"
  goto_result :: "string option"
  waitForLoadState_result :: "string option"
  title_result :: "string + string"
  storageState_result :: "string option"
  close_result :: "string option"

text \<open>
  The first \<open>global-setup\<close> file (the strict variant). The browser, the context and the
  page are created before the \<open>try\<close> statement; the \<open>catch\<close> clause logs and rethrows;
  the \<open>finally\<close> clause closes the browser. The local \<open>globalData\<close> object is never
  used and has no effect.
\<close>

definition globalSetup_strict :: "browser_world \<Rightarrow> unit js" where
  "globalSetup_strict w =
     js_bind (console_log ''Starting global setup for Qualtiva Solutions tests...'') (\<lambda>_.
     js_bind (call ChromiumLaunch (launch_result w)) (\<lambda>_.
     js_bind (call NewContext (newContext_result w)) (\<lambda>_.
     js_bind (call NewPage (newPage_result w)) (\<lambda>_.
     js_try_finally
       (js_try_catch
          (js_bind (console_log ''Checking website accessibility...'') (\<lambda>_.
           js_bind (call (Goto ''https://dev.analytiqa.cloud'') (goto_result w)) (\<lambda>_.
           js_bind (call (WaitForLoadState ''networkidle'') (waitForLoadState_result w)) (\<lambda>_.
           js_bind (call_value Title (title_result w)) (\<lambda>title.
           js_bind (console_log (''Website loaded successfully. Title: '' @ title)) (\<lambda>_.
           js_bind (call (StorageState ''global-state.json'') (storageState_result w)) (\<lambda>_.
           console_log ''Global setup completed successfully'')))))))
          (\<lambda>error.
             js_bind (console_error (''Global setup failed: '' @ error)) (\<lambda>_.
             js_throw error)))
       (call BrowserClose (close_result w))))))"

text \<open>
  The second \<open>global-setup\<close> file (the tolerant variant): the health check has a
  \<open>try\<close>/\<open>catch\<close> of its own that warns and goes on; saving the storage state is
  outside that inner \<open>try\<close> and inside the outer one.
\<close>

definition globalSetup_tolerant :: "browser_world \<Rightarrow> unit js" where
  "globalSetup_tolerant w =
     js_bind (console_log ''Starting global setup for Qualtiva Solutions tests...'') (\<lambda>_.
     js_bind (call ChromiumLaunch (launch_result w)) (\<lambda>_.
     js_bind (call NewContext (newContext_result w)) (\<lambda>_.
     js_bind (call NewPage (newPage_result w)) (\<lambda>_.
     js_try_finally
       (js_try_catch
          (js_bind (console_log ''Checking website accessibility...'') (\<lambda>_.
           js_bind
             (js_try_catch
                (js_bind (call (Goto ''https://www-dev.analytiqa.cloud/'') (goto_result w)) (\<lambda>_.
                 js_bind (call (WaitForLoadState ''networkidle'') (waitForLoadState_result w)) (\<lambda>_.
                 js_bind (call_value Title (title_result w)) (\<lambda>title.
                 console_log (''Website loaded successfully. Title: '' @ title)))))
                (\<lambda>accessError.
                   js_bind (console_warn (''Could not verify website accessibility: '' @ accessError)) (\<lambda>_.
                   console_log ''Proceeding with tests - site may not be reachable from this network'')))
             (\<lambda>_.
           js_bind (call (StorageState ''global-state.json'') (storageState_result w)) (\<lambda>_.
           console_log ''Global setup completed successfully''))))
          (\<lambda>error.
             js_bind (console_error (''Global setup failed: '' @ error)) (\<lambda>_.
             js_throw error)))
       (call BrowserClose (close_result w))))))"

text \<open>A world in which every call succeeds and the page is titled \<open>Qualtiva\<close>.\<close>

definition healthy_world :: browser_world where
  "healthy_world =
     \<lparr> launch_result = None, newContext_result = None, newPage_result = None,
       goto_result = None, waitForLoadState_result = None,
       title_result = Inr ''Qualtiva'', storageState_result = None,
       close_result = None \<rparr>"

section \<open>Global teardown\<close>

record fs_world =
  existsSync :: "string \<Rightarrow> bool"
  unlinkSync_result :: "string \<Rightarrow> string option"
  writeFileSync_result :: "string \<Rightarrow> string option"
  now_iso :: string  \<comment> \<open>\<open>new Date().toISOString()\<close>\<close>

definition tempFiles :: "string list" where
  "tempFiles = [''global-state.json'']"

fun cleanup :: "fs_world \<Rightarrow> string list \<Rightarrow> unit js" where
  "cleanup w [] = js_return ()"
| "cleanup w (file # rest) =
     js_bind
       (if existsSync w file
        then js_bind (call (UnlinkSync file) (unlinkSync_result w file)) (\<lambda>_.
             console_log (''Cleaned up '' @ file))
        else js_return ())
       (\<lambda>_. cleanup w rest)"

definition summary :: "string \<Rightarrow> json" where
  "summary testRun =
     JObject
       [(''testRun'', JString testRun),
        (''project'', JString ''Qualtiva Solutions Website Tests''),
        (''browsers'', JArray
           [JString ''chromium'',
            JString ''firefox'',
            JString ''webkit'',
            JString ''Mobile Chrome'',
            JString ''Mobile Safari'',
            JString ''iPad'',
            JString ''Edge'',
            JString ''Low-end Device'']),
        (''totalBrowsers'', JNumber 8),
        (''testCategories'', JArray
           [JString ''Home Page'',
            JString ''Navigation'',
            JString ''Contact Forms'',
            JString ''Accessibility'',
            JString ''Performance'',
            JString ''Web Build Best Practices'',
            JString ''Cross-browser Compatibility'',
            JString ''Mobile Responsiveness''])]"

definition globalTeardown :: "fs_world \<Rightarrow> unit js" where
  "globalTeardown w =
     js_bind (console_log ''Starting global teardown...'') (\<lambda>_.
     js_try_catch
       (js_bind (cleanup w tempFiles) (\<lambda>_.
        js_bind (call (WriteFileSync ''test-results/summary.json'' (summary (now_iso w)) 2)
                   (writeFileSync_result w ''test-results/summary.json'')) (\<lambda>_.
        js_bind (console_log ''Global teardown completed successfully'') (\<lambda>_.
        console_log ''Test summary saved to test-results/summary.json''))))
       (\<lambda>error. console_error (''Global teardown failed: '' @ error)))"

text \<open>Reading the result: the payloads of the \<open>writeFileSync\<close> calls of a run, and
  the value of a key of a JSON object.\<close>

fun written :: "event list \<Rightarrow> (string \<times> json) list" where
  "written [] = []"
| "written (Call (WriteFileSync p v n) # es) = (p, v) # written es"
| "written (e # es) = written es"

fun json_field :: "json \<Rightarrow> string \<Rightarrow> json option" where
  "json_field (JObject kvs) k = map_of kvs k"
| "json_field _ k = None"

text \<open>The two lists of names the summary is compared with.\<close>

definition browser_names :: "string list" where
  "browser_names =
     [''chromium'', ''firefox'', ''webkit'', ''Mobile Chrome'', ''Mobile Safari'',
      ''iPad'', ''Edge'', ''Low-end Device'']"

definition category_names :: "string list" where
  "category_names =
     [''Home Page'', ''Navigation'', ''Contact Forms'', ''Accessibility'', ''Performance'',
      ''Web Build Best Practices'', ''Cross-browser Compatibility'',
      ''Mobile Responsiveness'']"

section \<open>Test-runner configuration\<close>

text \<open>
  \<open>process.env.NAME\<close> is a string when the variable is set and \<open>undefined\<close> otherwise;
  in a condition, \<open>undefined\<close> and the empty string are falsy and every other string is
  truthy. \<open>workers = None\<close> stands for \<open>undefined\<close>: the framework's default.
\<close>

type_synonym environment = "string \<rightharpoonup> string"

definition js_truthy :: "string option \<Rightarrow> bool" where
  "js_truthy v = (case v of None \<Rightarrow> False | Some s \<Rightarrow> s \<noteq> [])"

record config =
  testDir :: string
  fullyParallel :: bool
  forbidOnly :: bool
  retries :: nat
  workers :: "nat option"
  baseURL :: string  \<comment> \<open>\<open>use.baseURL\<close>\<close>
  projects :: "string list"

definition playwright_config :: "environment \<Rightarrow> config" where
  "playwright_config env =
     \<lparr> testDir = ''./tests'',
       fullyParallel = True,
       forbidOnly = js_truthy (env ''CI''),
       retries = (if js_truthy (env ''CI'') then 2 else 0),
       workers = (if js_truthy (env ''CI'') then Some 1 else None),
       baseURL = ''https://dev.analytiqa.cloud'',
       projects =
         [''chromium'', ''firefox'', ''webkit'', ''Mobile Chrome'', ''Mobile Safari'',
          ''iPad'', ''Edge'', ''Low-end Device''] \<rparr>"

section \<open>The results uploader\<close>

text \<open>
  \<open>aqa-post-results.ps1\<close>. Its parameters, with the defaults of the \<open>param\<close> block.
  \<open>Hours\<close> is an \<open>[int]\<close>; dates are counted in ticks of 100 nanoseconds, as
  \<open>DateTime\<close> does.

  Three calls of the script can throw outside any \<open>try\<close>: the date arithmetic of the
  cutoff, and the two calls that build the credential. Under
  \<open>$ErrorActionPreference = 'Stop'\<close> each of them ends the script, with exit code 1.
  Reading a file and sending a request throw inside the \<open>try\<close>.
\<close>

record params =
  ResultsDir :: string
  FileFilter :: string
  ResultFormat :: string
  Engine :: string
  Hours :: int
  Tags :: string
  Team :: string
  Project :: string
  Application :: string
  Product :: string
  Environment :: string

definition default_params :: params where
  "default_params =
     \<lparr> ResultsDir = ''./test-results'', FileFilter = ''*results.xml'',
       ResultFormat = ''junit'', Engine = ''selenium'', Hours = 72, Tags = [],
       Team = [], Project = [], Application = [], Product = [],
       Environment = [] \<rparr>"

record file_info =
  Name :: string
  FullName :: string
  LastWriteTime :: int

record request =
  Uri :: string
  Method :: string
  Headers :: "(string \<times> string) list"
  Body :: string
  Credential :: "string \<times> string"  \<comment> \<open>user name and password of the \<open>PSCredential\<close>\<close>
  UseBasicParsing :: bool
  SkipCertificateCheck :: bool

text \<open>
  \<open>Invoke-WebRequest\<close> either returns a response (status code and content) or throws;
  the exception carries a message and, when the server answered, the status code of
  its response. \<open>Get-Content\<close> returns the text of the file or throws.
\<close>

datatype web_result =
    Response int string
  | WebException "int option" string

record ps_world =
  env_vars :: environment
  is_container :: "string \<Rightarrow> bool"  \<comment> \<open>\<open>Test-Path -PathType Container\<close>\<close>
  Join_Path :: "string \<Rightarrow> string \<Rightarrow> string"
  Get_ChildItem :: "string \<Rightarrow> file_info list"
    \<comment> \<open>the files matching a pattern; errors are silenced (\<open>SilentlyContinue\<close>)\<close>
  Get_Date :: int
  Get_Content :: "file_info \<Rightarrow> string + string"
    \<comment> \<open>\<open>Inl\<close> the message of the error thrown, \<open>Inr\<close> the text read\<close>
  Invoke_WebRequest :: "file_info \<Rightarrow> request \<Rightarrow> web_result"
    \<comment> \<open>what the request made for a file meets\<close>
  PSVersion_Major :: nat

text \<open>
  The lines the script prints, one constructor for each \<open>Write-Host\<close> of the source,
  with the values it interpolates; a line about a file prints the file's \<open>Name\<close> (and,
  when skipping, its \<open>LastWriteTime\<close>).
\<close>

datatype line =
    SendTo string  \<comment> \<open>\<open>Send to $aqaEndpoint\<close>\<close>
  | UsingFilePattern string
  | UsingTestEngine string
  | UsingTags string
  | ProcessingFilesModifiedAfter int int
  | Blank
  | Skipping file_info  \<comment> \<open>\<open>Skipping <name> (modified: <time>)\<close>\<close>
  | PostingFile file_info
  | DebugEndpoint string
  | DebugUser string
  | DebugHeaders "(string \<times> string) list"
  | SuccessfullyPosted file_info int  \<comment> \<open>\<open>Successfully posted: <name> (HTTP <code>)\<close>\<close>
  | UnexpectedStatus file_info int  \<comment> \<open>\<open>Unexpected status: <name> (HTTP <code>)\<close>\<close>
  | ResponseText string
  | FailedToPost file_info "int option"  \<comment> \<open>\<open>Failed to post <name> (HTTP <code>)\<close>\<close>
  | ErrorMessage string
  | Hints404 string string  \<comment> \<open>the five lines of the 404 hint\<close>
  | Separator
  | Done

datatype ps_event =
    Write_Host line
  | Write_Warning string
  | Write_Error string
  | HttpRequest file_info request  \<comment> \<open>the request is sent, for this file\<close>
  | Terminating_Error string  \<comment> \<open>an error nothing catches: the script ends here\<close>

definition ticks_per_hour :: int where
  "ticks_per_hour = 36000000000"

definition MaxTicks :: int where
  \<comment> \<open>\<open>DateTime.MaxValue.Ticks\<close>; the least date has 0 ticks\<close>
  "MaxTicks = 3155378975999999999"

definition AddHours :: "int \<Rightarrow> int \<Rightarrow> int option" where
  \<comment> \<open>\<open>None\<close>: the date asked for is outside what \<open>DateTime\<close> holds, and the call throws\<close>
  "AddHours t h =
     (let r = t + h * ticks_per_hour
      in if 0 \<le> r \<and> r \<le> MaxTicks then Some r else None)"

definition New_Credential :: "string \<Rightarrow> string \<Rightarrow> string + (string \<times> string)" where
  \<comment> \<open>\<open>ConvertTo-SecureString $aqaPassword -AsPlainText -Force\<close> refuses an empty string,
     then \<open>New-Object PSCredential($aqaUser, $securePassword)\<close> refuses an empty user
     name; \<open>Inl\<close> is the message of the error thrown\<close>
  "New_Credential user password =
     (if password = [] then Inl ''ConvertTo-SecureString: the string is empty''
      else if user = [] then Inl ''New-Object PSCredential: the user name is empty''
      else Inr (user, password))"

fun join :: "string \<Rightarrow> string list \<Rightarrow> string" where
  "join sep [] = []"
| "join sep [x] = x"
| "join sep (x # y # ys) = x @ sep @ join sep (y # ys)"

definition requiredEnvVars :: "string list" where
  "requiredEnvVars = [''AQA_USER'', ''AQA_PASSWORD'', ''AQA_ENDPOINT'']"

fun missing_vars :: "environment \<Rightarrow> string list \<Rightarrow> string list" where
  \<comment> \<open>the first \<open>foreach\<close>: \<open>$missing += $var\<close> when \<open>Test-Path env:$var\<close> fails\<close>
  "missing_vars env [] = []"
| "missing_vars env (var # vars) =
     (if env var = None then var # missing_vars env vars else missing_vars env vars)"

definition env_value :: "environment \<Rightarrow> string \<Rightarrow> string" where
  \<comment> \<open>\<open>$env:NAME\<close>; an unset variable reads as \<open>$null\<close>, which prints as nothing\<close>
  "env_value env name = (case env name of None \<Rightarrow> [] | Some v \<Rightarrow> v)"

definition headers :: "params \<Rightarrow> (string \<times> string) list" where
  "headers p =
     [(''Content-Type'', ''application/xml''),
      (''Test-Engine-Result-Format'', ResultFormat p),
      (''Test-Engine'', Engine p),
      (''Tags'', Tags p),
      (''aqa-team'', Team p),
      (''aqa-project'', Project p),
      (''aqa-application'', Application p),
      (''aqa-product'', Product p),
      (''aqa-environment'', Environment p)]"

definition catch_block :: "ps_world \<Rightarrow> file_info \<Rightarrow> int option \<Rightarrow> string \<Rightarrow> ps_event list" where
  "catch_block w file statusCode message =
     [Write_Host (FailedToPost file statusCode),
      Write_Host (ErrorMessage message)] @
     (if statusCode = Some 404
      then [Write_Host (Hints404 (env_value (env_vars w) ''AQA_ENDPOINT'')
                          (env_value (env_vars w) ''AQA_ENDPOINT''))]
      else [])"

definition status_branch :: "file_info \<Rightarrow> int \<Rightarrow> string \<Rightarrow> ps_event list" where
  "status_branch file statusCode responseBody =
     (if 200 \<le> statusCode \<and> statusCode < 300
      then [Write_Host (SuccessfullyPosted file statusCode)] @
           (if responseBody \<noteq> [] then [Write_Host (ResponseText responseBody)] else [])
      else [Write_Host (UnexpectedStatus file statusCode)] @
           (if responseBody \<noteq> [] then [Write_Host (ResponseText responseBody)] else []))"

definition requestParams ::
    "params \<Rightarrow> ps_world \<Rightarrow> string \<times> string \<Rightarrow> string \<Rightarrow> request" where
  \<comment> \<open>\<open>$url\<close> is \<open>$aqaEndpoint\<close>; \<open>SkipCertificateCheck\<close> is added from PowerShell 7 on\<close>
  "requestParams p w credential body =
     \<lparr> Uri = env_value (env_vars w) ''AQA_ENDPOINT'',
       Method = ''Post'',
       Headers = headers p,
       Body = body,
       Credential = credential,
       UseBasicParsing = True,
       SkipCertificateCheck = (7 \<le> PSVersion_Major w) \<rparr>"

text \<open>
  One turn of the loop: the events of the turn, and whether the script goes on
  (\<open>False\<close>: it has ended with an error). The credential is built after the file is
  announced and before the \<open>try\<close> statement.
\<close>

definition process_file ::
    "params \<Rightarrow> ps_world \<Rightarrow> int \<Rightarrow> file_info \<Rightarrow> ps_event list \<times> bool" where
  "process_file p w cutoffTime file =
     (if LastWriteTime file < cutoffTime
      then ([Write_Host (Skipping file)], True)
      else
        (case New_Credential (env_value (env_vars w) ''AQA_USER'')
                (env_value (env_vars w) ''AQA_PASSWORD'') of
           Inl message \<Rightarrow>
             ([Write_Host (PostingFile file), Terminating_Error message], False)
         | Inr credential \<Rightarrow>
             ([Write_Host (PostingFile file),
               Write_Host (DebugEndpoint (env_value (env_vars w) ''AQA_ENDPOINT'')),
               Write_Host (DebugUser (env_value (env_vars w) ''AQA_USER'')),
               Write_Host (DebugHeaders (headers p))] @
              (case Get_Content w file of
                 Inl message \<Rightarrow> catch_block w file None message
               | Inr body \<Rightarrow>
                   HttpRequest file (requestParams p w credential body) #
                   (case Invoke_WebRequest w file (requestParams p w credential body) of
                      Response statusCode responseBody \<Rightarrow>
                        status_branch file statusCode responseBody
                    | WebException statusCode message \<Rightarrow>
                        catch_block w file statusCode message)) @
              [Write_Host Separator], True)))"

fun foreach_file ::
    "params \<Rightarrow> ps_world \<Rightarrow> int \<Rightarrow> file_info list \<Rightarrow> ps_event list \<times> bool" where
  "foreach_file p w cutoffTime [] = ([], True)"
| "foreach_file p w cutoffTime (file # files) =
     (case process_file p w cutoffTime file of
        (es, False) \<Rightarrow> (es, False)
      | (es, True) \<Rightarrow>
          (case foreach_file p w cutoffTime files of (es', goes_on) \<Rightarrow> (es @ es', goes_on)))"

text \<open>
  The script: the events of a run and the exit code of the process. Under
  \<open>$ErrorActionPreference = 'Stop'\<close> a \<open>Write-Error\<close> ends the script at once, and the
  process ends with code 1, the code the \<open>exit 1\<close> that follows it names; so does any
  other error that nothing catches.
\<close>

definition cutoffTime :: "params \<Rightarrow> ps_world \<Rightarrow> int option" where
  \<comment> \<open>\<open>(Get-Date).AddHours(-$Hours)\<close>, evaluated once, before the files are listed\<close>
  "cutoffTime p w = AddHours (Get_Date w) (- Hours p)"

definition preamble :: "params \<Rightarrow> ps_world \<Rightarrow> int \<Rightarrow> ps_event list" where
  "preamble p w cutoff =
     [Write_Host (SendTo (env_value (env_vars w) ''AQA_ENDPOINT'')),
      Write_Host (UsingFilePattern (FileFilter p)),
      Write_Host (UsingTestEngine (Engine p)),
      Write_Host (UsingTags (Tags p)),
      Write_Host (ProcessingFilesModifiedAfter cutoff (Hours p)),
      Write_Host Blank]"

definition pattern :: "params \<Rightarrow> ps_world \<Rightarrow> string" where
  "pattern p w = Join_Path w (ResultsDir p) (FileFilter p)"

definition aqa_post_results :: "params \<Rightarrow> ps_world \<Rightarrow> ps_event list \<times> int" where
  "aqa_post_results p w =
     (let missing = missing_vars (env_vars w) requiredEnvVars in
      if missing \<noteq> []
      then ([Write_Error (''Missing required environment variables: '' @ join '', '' missing)], 1)
      else if \<not> is_container w (ResultsDir p)
      then ([Write_Error (''Results directory not found: '' @ ResultsDir p)], 1)
      else
        (case cutoffTime p w of
           None \<Rightarrow> ([Terminating_Error ''AddHours: the resulting DateTime is out of range''], 1)
         | Some cutoff \<Rightarrow>
             (let files = Get_ChildItem w (pattern p w)
              in if files = []
                 then (preamble p w cutoff @
                       [Write_Warning (''No files found matching pattern: '' @ pattern p w)], 0)
                 else
                   (case foreach_file p w cutoff files of
                      (es, True) \<Rightarrow> (preamble p w cutoff @ es @ [Write_Host Done], 0)
                    | (es, False) \<Rightarrow> (preamble p w cutoff @ es, 1)))))"

definition enters_loop :: "params \<Rightarrow> ps_world \<Rightarrow> int \<Rightarrow> bool" where
  \<comment> \<open>the run gets to the \<open>foreach\<close> over the files, with this cutoff\<close>
  "enters_loop p w cutoff =
     (missing_vars (env_vars w) requiredEnvVars = [] \<and> is_container w (ResultsDir p) \<and>
      cutoffTime p w = Some cutoff \<and> Get_ChildItem w (pattern p w) \<noteq> [])"

definition credential_ok :: "ps_world \<Rightarrow> bool" where
  \<comment> \<open>the user name and the password are not empty: the credential can be built\<close>
  "credential_ok w =
     (env_value (env_vars w) ''AQA_USER'' \<noteq> [] \<and> env_value (env_vars w) ''AQA_PASSWORD'' \<noteq> [])"

text \<open>Reading a run: the requests sent, and the requests sent for one file.\<close>

fun requests :: "ps_event list \<Rightarrow> (file_info \<times> request) list" where
  "requests [] = []"
| "requests (HttpRequest f r # es) = (f, r) # requests es"
| "requests (e # es) = requests es"

definition requests_for :: "file_info \<Rightarrow> ps_event list \<Rightarrow> request list" where
  "requests_for f es = map snd (filter (\<lambda>fr. fst fr = f) (requests es))"

definition skipped :: "file_info \<Rightarrow> ps_event list \<Rightarrow> bool" where
  "skipped f es = (Write_Host (Skipping f) \<in> set es)"


text \<open>
  A world for the examples: three variables set, a results directory with an old file,
  a file whose request the server refuses, a file answered with a redirect status that
  the client hands back as a response, and a file that is accepted.
\<close>

definition example_env :: environment where
  "example_env =
     [''AQA_USER'' \<mapsto> ''qa'', ''AQA_PASSWORD'' \<mapsto> ''secret'',
      ''AQA_ENDPOINT'' \<mapsto> ''https://qa.example.org/in-http'']"

definition old_file :: file_info where
  "old_file = \<lparr> Name = ''old-results.xml'', FullName = ''./test-results/old-results.xml'',
      LastWriteTime = 638000000000000000 - 3000000000000 \<rparr>"

definition refused_file :: file_info where
  "refused_file = \<lparr> Name = ''refused-results.xml'',
      FullName = ''./test-results/refused-results.xml'',
      LastWriteTime = 638000000000000000 - 2000 \<rparr>"

definition redirected_file :: file_info where
  "redirected_file = \<lparr> Name = ''redirected-results.xml'',
      FullName = ''./test-results/redirected-results.xml'',
      LastWriteTime = 638000000000000000 - 1500 \<rparr>"

definition fresh_file :: file_info where
  "fresh_file = \<lparr> Name = ''results.xml'', FullName = ''./test-results/results.xml'',
      LastWriteTime = 638000000000000000 - 1000 \<rparr>"

definition example_world :: ps_world where
  "example_world =
     \<lparr> env_vars = example_env,
       is_container = (\<lambda>d. d = ''./test-results''),
       Join_Path = (\<lambda>d c. d @ ''/'' @ c),
       Get_ChildItem = (\<lambda>pat. if pat = ''./test-results/*results.xml''
          then [old_file, refused_file, redirected_file, fresh_file] else []),
       Get_Date = 638000000000000000,
       Get_Content = (\<lambda>f. Inr ''<testsuites/>''),
       Invoke_WebRequest = (\<lambda>f r.
          if Name f = ''refused-results.xml'' then WebException (Some 500) ''Internal Server Error''
          else if Name f = ''redirected-results.xml'' then Response 304 []
          else Response 200 ''stored''),
       PSVersion_Major = 7 \<rparr>"

section \<open>The operator scripts\<close>

text \<open>
  The bash runner. It runs under \<open>set -e\<close>: an external command that fails ends the
  script with that command's status. A run is the list of its events and either the
  code it exits with (\<open>Inl\<close>) or its going on (\<open>Inr\<close>). The help text is one event.
\<close>

record sh_world =
  installed :: "string \<Rightarrow> bool"  \<comment> \<open>the command is found (\<open>command -v\<close>)\<close>
  has_package_json :: bool  \<comment> \<open>\<open>[ -f package.json ]\<close>\<close>
  has_report :: bool  \<comment> \<open>\<open>[ -d playwright-report ]\<close>\<close>
  BASE_URL :: "string option"
  date_stamp :: string  \<comment> \<open>\<open>$(date +%Y%m%d-%H%M%S)\<close>\<close>
  exit_status :: "string list \<Rightarrow> nat"  \<comment> \<open>the status an external command ends with\<close>

datatype sh_event =
    Print_status string
  | Print_success string
  | Print_warning string
  | Print_error string
  | Show_help
  | Export string string
  | Exec "string list"
  | Bash_error string
  | PowerShell_error string
  | New_Item_Directory string

type_synonym sh = "sh_event list \<times> (nat + unit)"

definition sh_seq :: "sh \<Rightarrow> sh \<Rightarrow> sh" where
  "sh_seq a b =
     (case a of
        (es, Inl code) \<Rightarrow> (es, Inl code)
      | (es, Inr _) \<Rightarrow> (case b of (es', r) \<Rightarrow> (es @ es', r)))"

definition emit :: "sh_event \<Rightarrow> sh" where
  "emit e = ([e], Inr ())"

definition exit_with :: "nat \<Rightarrow> sh" where
  "exit_with code = ([], Inl code)"

definition external :: "sh_world \<Rightarrow> string \<Rightarrow> string list \<Rightarrow> sh" where
  \<comment> \<open>an external command outside any condition, under \<open>set -e\<close>: a command that is
     not found has status 127\<close>
  "external w cmd args =
     (if installed w cmd
      then ([Exec (cmd # args)],
            if exit_status w (cmd # args) = 0 then Inr () else Inl (exit_status w (cmd # args)))
      else ([Bash_error (cmd @ '': command not found'')], Inl 127))"

definition check_dependencies :: "sh_world \<Rightarrow> sh" where
  "check_dependencies w =
     sh_seq (emit (Print_status ''Checking dependencies...''))
       (if \<not> installed w ''node''
        then sh_seq (emit (Print_error
                 ''Node.js is not installed. Please install Node.js v16 or higher.''))
               (exit_with 1)
        else if \<not> installed w ''npm''
        then sh_seq (emit (Print_error ''npm is not installed. Please install npm.''))
               (exit_with 1)
        else if \<not> has_package_json w
        then sh_seq (emit (Print_error
                 ''package.json not found. Please run this script from the test directory.''))
               (exit_with 1)
        else emit (Print_success ''Dependencies check passed''))"

definition install_dependencies :: "sh_world \<Rightarrow> sh" where
  "install_dependencies w =
     sh_seq (emit (Print_status ''Installing dependencies...''))
    (sh_seq (external w ''npm'' [''install''])
            (emit (Print_success ''Dependencies installed'')))"

definition install_browsers :: "sh_world \<Rightarrow> sh" where
  "install_browsers w =
     sh_seq (emit (Print_status ''Installing Playwright browsers...''))
    (sh_seq (external w ''npx'' [''playwright'', ''install'', ''--with-deps''])
            (emit (Print_success ''Browsers installed'')))"

definition report_base_url :: "sh_world \<Rightarrow> sh" where
  \<comment> \<open>\<open>[ -n "$BASE_URL" ]\<close>: set and not empty\<close>
  "report_base_url w =
     (case BASE_URL w of
        None \<Rightarrow> emit (Print_status ''Using default BASE_URL: https://www-dev.analytiqa.cloud/'')
      | Some url \<Rightarrow>
          if url \<noteq> [] then emit (Print_status (''Using BASE_URL: '' @ url))
          else emit (Print_status ''Using default BASE_URL: https://www-dev.analytiqa.cloud/''))"

definition junit_output :: "sh_world \<Rightarrow> sh" where
  \<comment> \<open>\<open>mkdir -p\<close> is an external command like the others: when it fails, \<open>set -e\<close>
     ends the script there\<close>
  "junit_output w =
     sh_seq (external w ''mkdir'' [''-p'', ''./junit-results''])
    (sh_seq (emit (Export ''PLAYWRIGHT_JUNIT_OUTPUT_DIR'' ''./junit-results''))
            (emit (Export ''PLAYWRIGHT_JUNIT_OUTPUT_NAME''
                     (''junit-'' @ date_stamp w @ ''.xml''))))"

definition run_tests :: "sh_world \<Rightarrow> string \<Rightarrow> string \<Rightarrow> sh" where
  \<comment> \<open>when \<open>npm run\<close> fails, \<open>set -e\<close> ends the script there, so the test of \<open>$?\<close> that
     follows only ever sees 0\<close>
  "run_tests w test_type description =
     sh_seq (emit (Print_status (''Running '' @ description @ ''...'')))
    (sh_seq (report_base_url w)
    (sh_seq (junit_output w)
    (sh_seq (external w ''npm'' [''run'', test_type])
            (emit (Print_success (description @ '' completed successfully''))))))"

definition run_sh_body :: "sh_world \<Rightarrow> string \<Rightarrow> sh" where
  "run_sh_body w cmd =
     (if cmd = ''setup'' then
        sh_seq (check_dependencies w)
       (sh_seq (install_dependencies w)
       (sh_seq (install_browsers w)
               (emit (Print_success ''Setup completed successfully''))))
      else if cmd = ''all'' then
        sh_seq (check_dependencies w) (run_tests w ''test:all-browsers'' ''All browser tests'')
      else if cmd = ''desktop'' then
        sh_seq (check_dependencies w) (run_tests w ''test:desktop'' ''Desktop browser tests'')
      else if cmd = ''mobile'' then
        sh_seq (check_dependencies w) (run_tests w ''test:mobile'' ''Mobile browser tests'')
      else if cmd = ''performance'' then
        sh_seq (check_dependencies w) (run_tests w ''test:performance'' ''Performance tests'')
      else if cmd = ''accessibility'' then
        sh_seq (check_dependencies w)
          (run_tests w ''test:accessibility'' ''Accessibility tests'')
      else if cmd = ''best-practices'' then
        sh_seq (check_dependencies w)
          (run_tests w ''test:best-practices'' ''Web build best practices tests'')
      else if cmd = ''cross-browser'' then
        sh_seq (check_dependencies w)
          (run_tests w ''test:cross-browser'' ''Cross-browser compatibility tests'')
      else if cmd = ''mobile-responsive'' then
        sh_seq (check_dependencies w)
          (run_tests w ''test:mobile-responsive'' ''Mobile responsiveness tests'')
      else if cmd = ''ci'' then
        sh_seq (check_dependencies w)
       (sh_seq (emit (Print_status ''Running tests with CI reporters...''))
       (sh_seq (report_base_url w)
       (sh_seq (junit_output w)
               (external w ''npx'' [''playwright'', ''test'', ''--reporter=html,junit,json'']))))
      else if cmd = ''codegen'' then
        \<comment> \<open>\<open>local\<close> outside a function is an error of status 1, and \<open>set -e\<close> ends the
           script before the code generator is started\<close>
        sh_seq (check_dependencies w)
       (sh_seq (emit (Bash_error ''local: can only be used in a function''))
               (exit_with 1))
      else if cmd = ''report'' then
        (if has_report w
         then sh_seq (emit (Print_status ''Opening test report...''))
                (external w ''npm'' [''run'', ''report''])
         else emit (Print_warning
                ''No test report found. Run tests first to generate a report.''))
      else emit Show_help)"

definition run_sh :: "sh_world \<Rightarrow> string option \<Rightarrow> sh_event list \<times> nat" where
  \<comment> \<open>\<open>case "${1:-help}"\<close>: a first argument that is absent or empty reads as \<open>help\<close>;
     a script that runs to its end exits with the status of its last command, 0\<close>
  "run_sh w arg =
     (case run_sh_body w
             (case arg of None \<Rightarrow> ''help'' | Some a \<Rightarrow> if a = [] then ''help'' else a) of
        (es, Inl code) \<Rightarrow> (es, code)
      | (es, Inr _) \<Rightarrow> (es, 0))"

text \<open>
  \<open>run.ps1\<close> has no \<open>param\<close> block and never reads its arguments: it makes the
  directory for the JUnit results when it is missing, sets the two variables of the
  JUnit reporter and starts the tests of one browser profile (the last line is an
  error when no command named \<open>npx\<close> is found).
\<close>

record ps1_world =
  targetDir_exists :: bool  \<comment> \<open>\<open>Test-Path $targetDir\<close>\<close>
  npx_found :: bool  \<comment> \<open>PowerShell finds a command named \<open>npx\<close>\<close>
  date_format :: string  \<comment> \<open>\<open>Get-Date -Format 'yyyyMMdd-HHmmss'\<close>\<close>

definition targetDir :: string where
  \<comment> \<open>\<open>.\junit-results\<close>\<close>
  "targetDir = CHR ''.'' # CHR 0x5C # ''junit-results''"

definition run_ps1 :: "ps1_world \<Rightarrow> string list \<Rightarrow> sh_event list" where
  "run_ps1 w args =
     (if \<not> targetDir_exists w then [New_Item_Directory targetDir] else []) @
     [Export ''PLAYWRIGHT_JUNIT_OUTPUT_DIR'' targetDir,
      Export ''PLAYWRIGHT_JUNIT_OUTPUT_NAME'' (''junit-'' @ date_format w @ ''.xml''),
      if npx_found w
      then Exec [''npx'', ''playwright'', ''test'', ''--project=chromium'', ''--quiet'']
      else PowerShell_error ''npx: the term is not recognized as a name of a command'']"

definition sub_commands :: "string list" where
  \<comment> \<open>the sub-commands the interface description lists\<close>
  "sub_commands =
     [''all'', ''desktop'', ''mobile'', ''performance'', ''accessibility'', ''best-practices'',
      ''cross-browser'', ''mobile-responsive'', ''ci'', ''codegen'', ''setup'', ''report'',
      ''help'']"

definition test_scripts :: "(string \<times> string \<times> string) list" where
  \<comment> \<open>the sub-commands that go through \<open>run_tests\<close>: the script of the package each
     runs, and how it is described\<close>
  "test_scripts =
     [(''all'', ''test:all-browsers'', ''All browser tests''),
      (''desktop'', ''test:desktop'', ''Desktop browser tests''),
      (''mobile'', ''test:mobile'', ''Mobile browser tests''),
      (''performance'', ''test:performance'', ''Performance tests''),
      (''accessibility'', ''test:accessibility'', ''Accessibility tests''),
      (''best-practices'', ''test:best-practices'', ''Web build best practices tests''),
      (''cross-browser'', ''test:cross-browser'', ''Cross-browser compatibility tests''),
      (''mobile-responsive'', ''test:mobile-responsive'', ''Mobile responsiveness tests'')]"

definition ready :: "sh_world \<Rightarrow> bool" where
  \<comment> \<open>what \<open>check_dependencies\<close> asks for\<close>
  "ready w = (installed w ''node'' \<and> installed w ''npm'' \<and> has_package_json w)"

definition results_dir_made :: "sh_world \<Rightarrow> bool" where
  \<comment> \<open>\<open>mkdir -p ./junit-results\<close> is found and succeeds\<close>
  "results_dir_made w =
     (installed w ''mkdir'' \<and> exit_status w [''mkdir'', ''-p'', ''./junit-results''] = 0)"

definition example_sh_world :: sh_world where
  "example_sh_world =
     \<lparr> installed = (\<lambda>cmd. True), has_package_json = True, has_report = False,
       BASE_URL = Some ''https://www.qualtiva.solutions'', date_stamp = ''20250101-120000'',
       exit_status = (\<lambda>argv. 0) \<rparr>"

definition read_only_sh_world :: sh_world where
  \<comment> \<open>everything is installed, and the directory for the results cannot be made\<close>
  "read_only_sh_world =
     \<lparr> installed = (\<lambda>cmd. True), has_package_json = True, has_report = False,
       BASE_URL = None, date_stamp = ''20250101-120000'',
       exit_status = (\<lambda>argv. if argv = [''mkdir'', ''-p'', ''./junit-results''] then 1 else 0) \<rparr>"

definition example_ps1_world :: ps1_world where
  "example_ps1_world =
     \<lparr> targetDir_exists = True, npx_found = True, date_format = ''20250101-120000'' \<rparr>"

definition quiet_fs :: fs_world where
  "quiet_fs = \<lparr> existsSync = (\<lambda>_. False), unlinkSync_result = (\<lambda>_. None),
      writeFileSync_result = (\<lambda>_. None), now_iso = ''2025-01-01T00:00:00.000Z'' \<rparr>"


fun execs :: "sh_event list \<Rightarrow> string list list" where
  \<comment> \<open>the external commands of a run, in order\<close>
  "execs [] = []"
| "execs (Exec argv # es) = argv # execs es"
| "execs (e # es) = execs es"

fun exports :: "sh_event list \<Rightarrow> (string \<times> string) list" where
  \<comment> \<open>the variables a run exports, in order\<close>
  "exports [] = []"
| "exports (Export name v # es) = (name, v) # exports es"
| "exports (e # es) = exports es"

text \<open>Worlds for the examples of the runs of the uploader that end early.\<close>

definition no_password_world :: ps_world where
  "no_password_world = example_world\<lparr> env_vars := example_env(''AQA_PASSWORD'' := None) \<rparr>"

definition no_directory_world :: ps_world where
  "no_directory_world =
     example_world\<lparr> is_container := (\<lambda>d. False), Get_ChildItem := (\<lambda>pat. []) \<rparr>"

definition no_files_world :: ps_world where
  "no_files_world = example_world\<lparr> Get_ChildItem := (\<lambda>pat. []) \<rparr>"


definition late_old_world :: ps_world where
  \<comment> \<open>an empty password, and an old file listed after a recent one\<close>
  "late_old_world =
     example_world\<lparr> env_vars := example_env(''AQA_PASSWORD'' \<mapsto> []),
       Get_ChildItem := (\<lambda>pat. [fresh_file, old_file]) \<rparr>"

definition unreadable_world :: ps_world where
  "unreadable_world = example_world\<lparr> Get_Content := (\<lambda>f. Inl ''Access is denied'') \<rparr>"

definition huge_hours_params :: params where
  \<comment> \<open>more hours than there are between the first date and now\<close>
  "huge_hours_params = default_params\<lparr> Hours := 20000000 \<rparr>"

section \<open>Properties of the hooks\<close>

lemmas js_defs = js_return_def js_throw_def js_bind_def js_try_catch_def js_try_finally_def
  console_log_def console_warn_def console_error_def call_def call_value_def
  events_def returns_normally_def thrown_def

lemma teardown_written:
  "written (events (globalTeardown w)) =
     (if existsSync w ''global-state.json'' \<and> unlinkSync_result w ''global-state.json'' \<noteq> None
      then [] else [(''test-results/summary.json'', summary (now_iso w))])"
  by (simp add: globalTeardown_def tempFiles_def js_defs split: option.splits)

lemma teardown_returns: "returns_normally (globalTeardown w)"
  by (simp add: globalTeardown_def tempFiles_def js_defs split: option.splits)

lemma summary_browsers_are_the_projects:
  "json_field (summary t) ''browsers'' = Some (JArray (map JString (projects (playwright_config env))))"
  by (simp add: summary_def playwright_config_def)

text \<open>
  C1. Whatever the file system holds and whatever the time is, a run of the teardown
  that gets to writing the summary writes it to \<open>test-results/summary.json\<close>, and the
  object written has under \<open>browsers\<close> the eight fixed profile names and under
  \<open>testCategories\<close> the eight fixed category names: both lists are constants of the
  code, and nothing of the run enters them.
\<close>

theorem teardown_summary_fixed_lists:
  "(p, v) \<in> set (written (events (globalTeardown w))) \<Longrightarrow>
     p = ''test-results/summary.json'' \<and> v = summary (now_iso w) \<and>
     json_field v ''browsers'' = Some (JArray (map JString browser_names)) \<and>
     json_field v ''testCategories'' = Some (JArray (map JString category_names)) \<and>
     length browser_names = 8 \<and> length category_names = 8"
  by (simp add: teardown_written summary_def browser_names_def category_names_def
      split: if_splits)

theorem teardown_summary_fixed_lists_witness:
  "(''test-results/summary.json'', summary ''2025-01-01T00:00:00.000Z'')
      \<in> set (written (events (globalTeardown quiet_fs))) \<and>
   json_field (summary ''2025-01-01T00:00:00.000Z'') ''browsers'' =
      Some (JArray (map JString browser_names)) \<and>
   json_field (summary ''2025-01-01T00:00:00.000Z'') ''testCategories'' =
      Some (JArray (map JString category_names))"
proof -
  have h: "(''test-results/summary.json'', summary ''2025-01-01T00:00:00.000Z'')
      \<in> set (written (events (globalTeardown quiet_fs)))"
    by (simp add: teardown_written quiet_fs_def)
  from teardown_summary_fixed_lists [OF h] h show ?thesis by (simp add: quiet_fs_def)
qed

text \<open>
  C2, as the claim states it, fails: in the strict variant a failed navigation is logged
  as an error and thrown again, and in the tolerant variant a run whose navigation fails
  still throws when saving the storage state fails afterwards.
\<close>

theorem setup_navigation_failure_counterexample:
  "\<not> returns_normally
       (globalSetup_strict (healthy_world\<lparr>goto_result := Some ''net::ERR_NAME_NOT_RESOLVED''\<rparr>)) \<and>
   ConsoleWarn (''Could not verify website accessibility: '' @ ''net::ERR_NAME_NOT_RESOLVED'')
     \<notin> set (events
         (globalSetup_strict (healthy_world\<lparr>goto_result := Some ''net::ERR_NAME_NOT_RESOLVED''\<rparr>))) \<and>
   \<not> returns_normally
       (globalSetup_tolerant
          (healthy_world\<lparr>goto_result := Some ''net::ERR_NAME_NOT_RESOLVED'',
             storageState_result := Some ''EACCES''\<rparr>))"
  by (simp add: globalSetup_strict_def globalSetup_tolerant_def healthy_world_def js_defs)

text \<open>
  C2, amended. When the browser, the context and the page are there and the navigation
  of the health check fails with message \<open>m\<close>: the tolerant variant logs the failure as a
  warning, goes on to save the storage state, and returns normally exactly when saving
  the storage state and closing the browser both succeed; the strict variant logs the
  failure as an error, logs no warning, and throws (the navigation's error, or the error
  of closing the browser when that fails too).
\<close>

theorem setup_navigation_failure:
  assumes "launch_result w = None" "newContext_result w = None" "newPage_result w = None"
    and "goto_result w = Some m"
  shows "(returns_normally (globalSetup_tolerant w) \<longleftrightarrow>
            storageState_result w = None \<and> close_result w = None) \<and>
         ConsoleWarn (''Could not verify website accessibility: '' @ m)
            \<in> set (events (globalSetup_tolerant w)) \<and>
         Call (StorageState ''global-state.json'') \<in> set (events (globalSetup_tolerant w)) \<and>
         \<not> returns_normally (globalSetup_strict w) \<and>
         ConsoleError (''Global setup failed: '' @ m) \<in> set (events (globalSetup_strict w)) \<and>
         (\<forall>s. ConsoleWarn s \<notin> set (events (globalSetup_strict w))) \<and>
         thrown (globalSetup_strict w) = Some (case close_result w of None \<Rightarrow> m | Some c \<Rightarrow> c)"
  using assms
  by (simp add: globalSetup_strict_def globalSetup_tolerant_def js_defs split: option.splits)

theorem setup_navigation_failure_witness:
  "goto_result (healthy_world\<lparr>goto_result := Some ''timeout''\<rparr>) = Some ''timeout'' \<and>
   returns_normally (globalSetup_tolerant (healthy_world\<lparr>goto_result := Some ''timeout''\<rparr>)) \<and>
   ConsoleWarn (''Could not verify website accessibility: '' @ ''timeout'')
     \<in> set (events (globalSetup_tolerant (healthy_world\<lparr>goto_result := Some ''timeout''\<rparr>))) \<and>
   \<not> returns_normally (globalSetup_strict (healthy_world\<lparr>goto_result := Some ''timeout''\<rparr>)) \<and>
   thrown (globalSetup_strict (healthy_world\<lparr>goto_result := Some ''timeout''\<rparr>)) = Some ''timeout''"
proof -
  let ?w = "healthy_world\<lparr>goto_result := Some ''timeout''\<rparr>"
  have h: "launch_result ?w = None" "newContext_result ?w = None" "newPage_result ?w = None"
    "goto_result ?w = Some ''timeout''"
    by (simp_all add: healthy_world_def)
  have c: "storageState_result ?w = None" "close_result ?w = None"
    by (simp_all add: healthy_world_def)
  from setup_navigation_failure [OF h] h(4) c show ?thesis by simp
qed

text \<open>
  C9. The browser is closed by the \<open>finally\<close> clause, but the context and the page are
  created between the launch and the \<open>try\<close> statement. In both variants, when the launch
  succeeds and creating the context fails, the routine throws and the browser is never
  closed.
\<close>

theorem setup_leaks_browser:
  "Call ChromiumLaunch
     \<in> set (events (globalSetup_strict (healthy_world\<lparr>newContext_result := Some ''Target closed''\<rparr>))) \<and>
   Call BrowserClose
     \<notin> set (events (globalSetup_strict (healthy_world\<lparr>newContext_result := Some ''Target closed''\<rparr>))) \<and>
   thrown (globalSetup_strict (healthy_world\<lparr>newContext_result := Some ''Target closed''\<rparr>))
     = Some ''Target closed'' \<and>
   Call ChromiumLaunch
     \<in> set (events (globalSetup_tolerant (healthy_world\<lparr>newContext_result := Some ''Target closed''\<rparr>))) \<and>
   Call BrowserClose
     \<notin> set (events (globalSetup_tolerant (healthy_world\<lparr>newContext_result := Some ''Target closed''\<rparr>))) \<and>
   thrown (globalSetup_tolerant (healthy_world\<lparr>newContext_result := Some ''Target closed''\<rparr>))
     = Some ''Target closed''"
  by (simp add: globalSetup_strict_def globalSetup_tolerant_def healthy_world_def js_defs)

text \<open>Once the \<open>try\<close> statement is entered, the last thing either variant does is to
  close the browser, on every path.\<close>

lemma setup_closes_after_try:
  assumes "launch_result w = None" "newContext_result w = None" "newPage_result w = None"
  shows "last (events (globalSetup_strict w)) = Call BrowserClose \<and>
         last (events (globalSetup_tolerant w)) = Call BrowserClose"
  using assms
  by (simp add: globalSetup_strict_def globalSetup_tolerant_def js_defs
      split: option.splits sum.splits)

section \<open>Properties of the configuration\<close>

text \<open>
  C8. The retry count is 2 exactly when \<open>CI\<close> is set to a string that is not empty (a
  truthy value) and 0 otherwise; the worker count is 1 exactly in that case and left
  undefined, for the framework to choose, otherwise; tests run fully parallel in both
  cases.
\<close>

theorem config_ci_settings:
  "(retries (playwright_config env) = 2 \<longleftrightarrow> (\<exists>s. env ''CI'' = Some s \<and> s \<noteq> [])) \<and>
   (retries (playwright_config env) = 0 \<longleftrightarrow> \<not> (\<exists>s. env ''CI'' = Some s \<and> s \<noteq> [])) \<and>
   (workers (playwright_config env) = Some 1 \<longleftrightarrow> (\<exists>s. env ''CI'' = Some s \<and> s \<noteq> [])) \<and>
   (workers (playwright_config env) = None \<longleftrightarrow> \<not> (\<exists>s. env ''CI'' = Some s \<and> s \<noteq> [])) \<and>
   fullyParallel (playwright_config env)"
  by (auto simp: playwright_config_def js_truthy_def split: option.splits)


section \<open>Properties of the results uploader\<close>

lemma requests_append: "requests (xs @ ys) = requests xs @ requests ys"
  by (induction xs rule: requests.induct) simp_all

lemma requests_status_branch: "requests (status_branch f sc rb) = []"
  by (simp add: status_branch_def)

lemma requests_catch_block: "requests (catch_block w f st m) = []"
  by (simp add: catch_block_def)

lemma credential_built:
  "credential_ok w \<Longrightarrow>
     New_Credential (env_value (env_vars w) ''AQA_USER'') (env_value (env_vars w) ''AQA_PASSWORD'')
       = Inr (env_value (env_vars w) ''AQA_USER'', env_value (env_vars w) ''AQA_PASSWORD'')"
  by (simp add: credential_ok_def New_Credential_def)

lemma credential_refused:
  "\<not> credential_ok w \<Longrightarrow>
     \<exists>m. New_Credential (env_value (env_vars w) ''AQA_USER'')
            (env_value (env_vars w) ''AQA_PASSWORD'') = Inl m"
  by (auto simp: credential_ok_def New_Credential_def)

lemma credential_is_env:
  "New_Credential (env_value (env_vars w) ''AQA_USER'') (env_value (env_vars w) ''AQA_PASSWORD'')
     = Inr cred \<Longrightarrow>
   credential_ok w \<and>
   cred = (env_value (env_vars w) ''AQA_USER'', env_value (env_vars w) ''AQA_PASSWORD'')"
  by (auto simp: credential_ok_def New_Credential_def split: if_splits)

lemma requests_process_file:
  "requests (fst (process_file p w c f)) =
     (if LastWriteTime f < c then []
      else case New_Credential (env_value (env_vars w) ''AQA_USER'')
                  (env_value (env_vars w) ''AQA_PASSWORD'') of
             Inl m \<Rightarrow> []
           | Inr cred \<Rightarrow>
               (case Get_Content w f of
                  Inl m \<Rightarrow> []
                | Inr body \<Rightarrow> [(f, requestParams p w cred body)]))"
  by (simp add: process_file_def requests_append requests_status_branch requests_catch_block
      split: sum.splits web_result.splits)

lemma process_file_goes_on:
  "snd (process_file p w c f) \<longleftrightarrow> LastWriteTime f < c \<or> credential_ok w"
proof (cases "credential_ok w")
  case True
  then show ?thesis by (simp add: process_file_def credential_built)
next
  case False
  from credential_refused [OF this] show ?thesis
    using False by (auto simp: process_file_def)
qed

lemma foreach_file_goes_on:
  "snd (foreach_file p w c fs) \<longleftrightarrow> credential_ok w \<or> (\<forall>f \<in> set fs. LastWriteTime f < c)"
proof (induction fs)
  case Nil
  then show ?case by simp
next
  case (Cons f fs)
  obtain es b where pf: "process_file p w c f = (es, b)" by (cases "process_file p w c f")
  obtain es' b' where ff: "foreach_file p w c fs = (es', b')"
    by (cases "foreach_file p w c fs")
  from pf have b: "b \<longleftrightarrow> LastWriteTime f < c \<or> credential_ok w"
    using process_file_goes_on [of p w c f] by simp
  from ff Cons.IH have b': "b' \<longleftrightarrow> credential_ok w \<or> (\<forall>f \<in> set fs. LastWriteTime f < c)"
    by simp
  show ?case using pf ff b b' by (cases b) auto
qed

lemma foreach_file_events:
  "snd (foreach_file p w c fs) \<Longrightarrow>
     fst (foreach_file p w c fs) = concat (map (\<lambda>f. fst (process_file p w c f)) fs)"
proof (induction fs)
  case Nil
  then show ?case by simp
next
  case (Cons f fs)
  obtain es b where pf: "process_file p w c f = (es, b)" by (cases "process_file p w c f")
  obtain es' b' where ff: "foreach_file p w c fs = (es', b')"
    by (cases "foreach_file p w c fs")
  from Cons.prems pf ff have "b" "b'" by (cases b; simp)+
  with Cons.IH pf ff show ?case by simp
qed

lemma foreach_file_subset:
  "set (fst (foreach_file p w c fs)) \<subseteq> (\<Union>f \<in> set fs. set (fst (process_file p w c f)))"
proof (induction fs)
  case Nil
  then show ?case by simp
next
  case (Cons f fs)
  obtain es b where pf: "process_file p w c f = (es, b)" by (cases "process_file p w c f")
  obtain es' b' where ff: "foreach_file p w c fs = (es', b')"
    by (cases "foreach_file p w c fs")
  from Cons.IH pf ff show ?case by (cases b) auto
qed

lemma in_requests: "(f, r) \<in> set (requests es) \<longleftrightarrow> HttpRequest f r \<in> set es"
  by (induction es rule: requests.induct) auto

lemma skipping_process_file:
  "Write_Host (Skipping g) \<in> set (fst (process_file p w c f)) \<longleftrightarrow> g = f \<and> LastWriteTime f < c"
  by (auto simp: process_file_def catch_block_def status_branch_def
      split: sum.splits web_result.splits)

lemma posting_process_file:
  "Write_Host (PostingFile g) \<in> set (fst (process_file p w c f))
     \<longleftrightarrow> g = f \<and> \<not> LastWriteTime f < c"
  by (auto simp: process_file_def catch_block_def status_branch_def
      split: sum.splits web_result.splits)

lemma classified_process_file:
  assumes "credential_ok w"
  shows
  "Write_Host (SuccessfullyPosted g sc) \<in> set (fst (process_file p w c f)) \<longleftrightarrow>
     g = f \<and> \<not> LastWriteTime f < c \<and> 200 \<le> sc \<and> sc < 300 \<and>
     (\<exists>body rb. Get_Content w f = Inr body \<and>
        Invoke_WebRequest w f
          (requestParams p w (env_value (env_vars w) ''AQA_USER'',
             env_value (env_vars w) ''AQA_PASSWORD'') body) = Response sc rb)"
  "Write_Host (UnexpectedStatus g sc) \<in> set (fst (process_file p w c f)) \<longleftrightarrow>
     g = f \<and> \<not> LastWriteTime f < c \<and> \<not> (200 \<le> sc \<and> sc < 300) \<and>
     (\<exists>body rb. Get_Content w f = Inr body \<and>
        Invoke_WebRequest w f
          (requestParams p w (env_value (env_vars w) ''AQA_USER'',
             env_value (env_vars w) ''AQA_PASSWORD'') body) = Response sc rb)"
  "Write_Host (FailedToPost g st) \<in> set (fst (process_file p w c f)) \<longleftrightarrow>
     g = f \<and> \<not> LastWriteTime f < c \<and>
     (case Get_Content w f of
        Inl m \<Rightarrow> st = None
      | Inr body \<Rightarrow>
          (\<exists>m. Invoke_WebRequest w f
             (requestParams p w (env_value (env_vars w) ''AQA_USER'',
                env_value (env_vars w) ''AQA_PASSWORD'') body) = WebException st m))"
  by (auto simp: process_file_def credential_built [OF assms] catch_block_def status_branch_def
      split: sum.splits web_result.splits)

text \<open>The shape of a run that gets to the loop.\<close>

lemma trace_of_loop:
  "enters_loop p w c \<Longrightarrow>
     aqa_post_results p w =
       (preamble p w c @ fst (foreach_file p w c (Get_ChildItem w (pattern p w))) @
          (if snd (foreach_file p w c (Get_ChildItem w (pattern p w)))
           then [Write_Host Done] else []),
        if snd (foreach_file p w c (Get_ChildItem w (pattern p w))) then 0 else 1)"
  by (cases "foreach_file p w c (Get_ChildItem w (pattern p w))")
     (simp add: enters_loop_def aqa_post_results_def Let_def)

lemma trace_in_loop:
  assumes "enters_loop p w c" "credential_ok w"
  shows "aqa_post_results p w =
       (preamble p w c @
        concat (map (\<lambda>f. fst (process_file p w c f)) (Get_ChildItem w (pattern p w))) @
        [Write_Host Done], 0)"
proof -
  have "snd (foreach_file p w c (Get_ChildItem w (pattern p w)))"
    using assms(2) by (simp add: foreach_file_goes_on)
  then show ?thesis
    using trace_of_loop [OF assms(1)] by (simp add: foreach_file_events)
qed

lemma in_trace_in_loop:
  assumes "enters_loop p w c" "credential_ok w"
  shows "e \<in> set (fst (aqa_post_results p w)) \<longleftrightarrow>
       e \<in> set (preamble p w c) \<or> e = Write_Host Done \<or>
       (\<exists>f \<in> set (Get_ChildItem w (pattern p w)). e \<in> set (fst (process_file p w c f)))"
  by (auto simp: trace_in_loop [OF assms])

lemma skipped_in_loop:
  assumes "enters_loop p w c" "credential_ok w"
  shows "skipped f (fst (aqa_post_results p w)) \<longleftrightarrow>
       f \<in> set (Get_ChildItem w (pattern p w)) \<and> LastWriteTime f < c"
  by (auto simp: skipped_def in_trace_in_loop [OF assms] preamble_def skipping_process_file)

lemma enters_loop_cutoff:
  "enters_loop p w c \<Longrightarrow> c = Get_Date w - Hours p * ticks_per_hour"
  by (auto simp: enters_loop_def cutoffTime_def AddHours_def Let_def split: if_splits)

lemma no_loop_no_requests:
  "(\<And>c. \<not> enters_loop p w c) \<Longrightarrow> requests (fst (aqa_post_results p w)) = []"
  by (auto simp: enters_loop_def aqa_post_results_def Let_def requests_append preamble_def
      split: option.splits)

text \<open>A request that was sent: the loop was entered, the credential was built, the file
  is one of the files listed, it is not older than the cutoff and could be read.\<close>

lemma request_sent:
  assumes "(f, r) \<in> set (requests (fst (aqa_post_results p w)))"
  shows "\<exists>c body. enters_loop p w c \<and> credential_ok w \<and>
           f \<in> set (Get_ChildItem w (pattern p w)) \<and> \<not> LastWriteTime f < c \<and>
           Get_Content w f = Inr body \<and>
           r = requestParams p w (env_value (env_vars w) ''AQA_USER'',
                 env_value (env_vars w) ''AQA_PASSWORD'') body"
proof -
  have "\<exists>c. enters_loop p w c"
  proof (rule ccontr)
    assume "\<nexists>c. enters_loop p w c"
    then have "requests (fst (aqa_post_results p w)) = []"
      by (intro no_loop_no_requests) blast
    with assms show False by simp
  qed
  then obtain c where loop: "enters_loop p w c" ..
  let ?fs = "Get_ChildItem w (pattern p w)"
  from assms have "HttpRequest f r \<in> set (fst (aqa_post_results p w))"
    by (simp add: in_requests)
  then have "HttpRequest f r \<in> set (fst (foreach_file p w c ?fs))"
    by (auto simp: trace_of_loop [OF loop] preamble_def split: if_splits)
  then obtain g where g: "g \<in> set ?fs" "HttpRequest f r \<in> set (fst (process_file p w c g))"
    using foreach_file_subset [of p w c ?fs] by blast
  from g(2) have in_req: "(f, r) \<in> set (requests (fst (process_file p w c g)))"
    by (simp add: in_requests)
  then have fresh: "\<not> LastWriteTime g < c"
    by (auto simp: requests_process_file split: if_splits)
  from in_req fresh obtain cred where cred:
      "New_Credential (env_value (env_vars w) ''AQA_USER'')
         (env_value (env_vars w) ''AQA_PASSWORD'') = Inr cred"
    by (cases "New_Credential (env_value (env_vars w) ''AQA_USER'')
         (env_value (env_vars w) ''AQA_PASSWORD'')") (auto simp: requests_process_file)
  from in_req fresh cred obtain body where body: "Get_Content w g = Inr body"
      "f = g" "r = requestParams p w cred body"
    by (cases "Get_Content w g") (auto simp: requests_process_file)
  from credential_is_env [OF cred] loop g(1) fresh body show ?thesis by blast
qed

lemma requests_for_empty:
  "requests_for f es = [] \<longleftrightarrow> (\<forall>r. (f, r) \<notin> set (requests es))"
  by (auto simp: requests_for_def filter_empty_conv)

lemma request_in_loop:
  assumes "enters_loop p w c" "credential_ok w"
  shows "(f, r) \<in> set (requests (fst (aqa_post_results p w))) \<longleftrightarrow>
           f \<in> set (Get_ChildItem w (pattern p w)) \<and> \<not> LastWriteTime f < c \<and>
           (\<exists>body. Get_Content w f = Inr body \<and>
              r = requestParams p w (env_value (env_vars w) ''AQA_USER'',
                    env_value (env_vars w) ''AQA_PASSWORD'') body)"
proof -
  have "(f, r) \<in> set (requests (fst (aqa_post_results p w))) \<longleftrightarrow>
        (\<exists>g \<in> set (Get_ChildItem w (pattern p w)).
           (f, r) \<in> set (requests (fst (process_file p w c g))))"
    by (auto simp: in_requests in_trace_in_loop [OF assms] preamble_def)
  also have "\<dots> \<longleftrightarrow> f \<in> set (Get_ChildItem w (pattern p w)) \<and> \<not> LastWriteTime f < c \<and>
           (\<exists>body. Get_Content w f = Inr body \<and>
              r = requestParams p w (env_value (env_vars w) ''AQA_USER'',
                    env_value (env_vars w) ''AQA_PASSWORD'') body)"
  proof -
    have "(f, r) \<in> set (requests (fst (process_file p w c g))) \<longleftrightarrow>
            g = f \<and> \<not> LastWriteTime f < c \<and>
            (\<exists>body. Get_Content w f = Inr body \<and>
               r = requestParams p w (env_value (env_vars w) ''AQA_USER'',
                     env_value (env_vars w) ''AQA_PASSWORD'') body)" for g
      by (cases "Get_Content w g")
         (auto simp: requests_process_file credential_built [OF assms(2)])
    then show ?thesis by auto
  qed
  finally show ?thesis .
qed

lemma missing_vars_set:
  "set (missing_vars env vars) = {v \<in> set vars. env v = None}"
  by (induction vars) auto

lemma missing_none:
  "missing_vars env requiredEnvVars = [] \<longleftrightarrow>
     env ''AQA_USER'' \<noteq> None \<and> env ''AQA_PASSWORD'' \<noteq> None \<and> env ''AQA_ENDPOINT'' \<noteq> None"
  by (simp add: requiredEnvVars_def)

text \<open>Facts about the example worlds.\<close>

lemma example_pattern: "pattern default_params example_world = ''./test-results/*results.xml''"
  by (simp add: pattern_def default_params_def example_world_def)

lemma example_files:
  "Get_ChildItem example_world (pattern default_params example_world) =
     [old_file, refused_file, redirected_file, fresh_file]"
  by (simp add: example_pattern) (simp add: example_world_def)

lemma example_cutoff:
  "cutoffTime default_params example_world = Some 637997408000000000"
  by (simp add: cutoffTime_def AddHours_def ticks_per_hour_def MaxTicks_def default_params_def
      example_world_def)

lemma example_enters_loop:
  "enters_loop default_params example_world 637997408000000000"
  unfolding enters_loop_def
  by (simp add: example_files missing_none example_cutoff)
     (simp add: example_world_def example_env_def default_params_def)

lemma example_credential: "credential_ok example_world"
  by (simp add: credential_ok_def env_value_def example_world_def example_env_def)

lemma example_credential_values:
  "env_value (env_vars example_world) ''AQA_USER'' = ''qa''"
  "env_value (env_vars example_world) ''AQA_PASSWORD'' = ''secret''"
  by (simp_all add: env_value_def example_world_def example_env_def)

lemma example_content: "Get_Content example_world f = Inr ''<testsuites/>''"
  by (simp add: example_world_def)

lemma example_ages:
  "LastWriteTime old_file < 637997408000000000"
  "\<not> LastWriteTime refused_file < 637997408000000000"
  "\<not> LastWriteTime redirected_file < 637997408000000000"
  "\<not> LastWriteTime fresh_file < 637997408000000000"
  by (simp_all add: old_file_def refused_file_def redirected_file_def fresh_file_def)

text \<open>The runs of the example worlds that end early.\<close>

lemma unreadable_enters_loop:
  "enters_loop default_params unreadable_world 637997408000000000"
  "credential_ok unreadable_world"
  "Get_ChildItem unreadable_world (pattern default_params unreadable_world) =
     [old_file, refused_file, redirected_file, fresh_file]"
  using example_enters_loop example_credential example_files
  by (simp_all add: unreadable_world_def enters_loop_def credential_ok_def pattern_def
      cutoffTime_def)

lemma late_old_run:
  "aqa_post_results default_params late_old_world =
     (preamble default_params late_old_world 637997408000000000 @
      [Write_Host (PostingFile fresh_file),
       Terminating_Error ''ConvertTo-SecureString: the string is empty''], 1)"
  by (simp add: aqa_post_results_def late_old_world_def example_world_def example_env_def
      requiredEnvVars_def default_params_def cutoffTime_def AddHours_def ticks_per_hour_def
      MaxTicks_def pattern_def process_file_def New_Credential_def env_value_def
      fresh_file_def old_file_def)


lemma huge_hours_run:
  "aqa_post_results huge_hours_params example_world =
     ([Terminating_Error ''AddHours: the resulting DateTime is out of range''], 1)"
  "aqa_post_results huge_hours_params no_files_world =
     ([Terminating_Error ''AddHours: the resulting DateTime is out of range''], 1)"
  by (simp_all add: aqa_post_results_def huge_hours_params_def no_files_world_def
      example_world_def example_env_def requiredEnvVars_def default_params_def cutoffTime_def
      AddHours_def ticks_per_hour_def MaxTicks_def)

text \<open>
  C3, as the claim states it, fails. A recent file that cannot be read gets no request
  although it is not older than the cutoff. With an empty password the script ends at
  the first recent file, and an old file listed after it is never skipped. With an
  \<open>Hours\<close> value that takes the cutoff before the first date, the script ends before the
  loop, and a recent file gets no request.
\<close>

theorem uploader_skips_old_files_counterexample:
  "fresh_file \<in> set (Get_ChildItem unreadable_world (pattern default_params unreadable_world)) \<and>
   \<not> LastWriteTime fresh_file
       < Get_Date unreadable_world - Hours default_params * ticks_per_hour \<and>
   requests_for fresh_file (fst (aqa_post_results default_params unreadable_world)) = [] \<and>
   old_file \<in> set (Get_ChildItem late_old_world (pattern default_params late_old_world)) \<and>
   LastWriteTime old_file < Get_Date late_old_world - Hours default_params * ticks_per_hour \<and>
   \<not> skipped old_file (fst (aqa_post_results default_params late_old_world)) \<and>
   fresh_file \<in> set (Get_ChildItem example_world (pattern huge_hours_params example_world)) \<and>
   \<not> LastWriteTime fresh_file
       < Get_Date example_world - Hours huge_hours_params * ticks_per_hour \<and>
   requests_for fresh_file (fst (aqa_post_results huge_hours_params example_world)) = []"
proof -
  have a: "requests_for fresh_file (fst (aqa_post_results default_params unreadable_world)) = []"
    by (simp add: requests_for_empty
        request_in_loop [OF unreadable_enters_loop(1) unreadable_enters_loop(2)])
       (simp add: unreadable_world_def)
  have b: "\<not> skipped old_file (fst (aqa_post_results default_params late_old_world))"
    by (simp add: late_old_run skipped_def preamble_def)
  have c: "requests_for fresh_file (fst (aqa_post_results huge_hours_params example_world)) = []"
    by (simp add: huge_hours_run requests_for_def)
  have d: "fresh_file \<in> set (Get_ChildItem unreadable_world (pattern default_params unreadable_world))"
    "old_file \<in> set (Get_ChildItem late_old_world (pattern default_params late_old_world))"
    "fresh_file \<in> set (Get_ChildItem example_world (pattern huge_hours_params example_world))"
  proof -
    show "fresh_file \<in> set (Get_ChildItem unreadable_world (pattern default_params unreadable_world))"
      by (simp add: unreadable_enters_loop(3))
    show "old_file \<in> set (Get_ChildItem late_old_world (pattern default_params late_old_world))"
      by (simp add: late_old_world_def)
    have "pattern huge_hours_params example_world = pattern default_params example_world"
      by (simp add: pattern_def huge_hours_params_def)
    then show "fresh_file \<in> set (Get_ChildItem example_world (pattern huge_hours_params example_world))"
      by (simp add: example_files)
  qed
  have e: "\<not> LastWriteTime fresh_file
       < Get_Date unreadable_world - Hours default_params * ticks_per_hour"
    "LastWriteTime old_file < Get_Date late_old_world - Hours default_params * ticks_per_hour"
    "\<not> LastWriteTime fresh_file
       < Get_Date example_world - Hours huge_hours_params * ticks_per_hour"
    by (simp_all add: unreadable_world_def late_old_world_def example_world_def
        huge_hours_params_def default_params_def ticks_per_hour_def fresh_file_def old_file_def)
  show ?thesis by (intro conjI a b c d e)
qed

text \<open>
  C3, amended. In a run that gets to the loop (so the cutoff, the start time less
  \<open>Hours\<close> hours, is a date that exists; it is one value, computed before the loop, and
  \<open>Hours\<close> is 72 by default) and in which the user name and the password are not empty,
  every file the pattern matches is skipped exactly when its last modification is
  strictly earlier than the cutoff; and no request is sent for a file exactly when it is
  skipped or its content cannot be read. A file that is not skipped is announced for
  posting.
\<close>

theorem uploader_skips_old_files:
  assumes "enters_loop p w c" and "credential_ok w"
    and "f \<in> set (Get_ChildItem w (pattern p w))"
  shows "c = Get_Date w - Hours p * ticks_per_hour \<and>
         (skipped f (fst (aqa_post_results p w)) \<longleftrightarrow> LastWriteTime f < c) \<and>
         (requests_for f (fst (aqa_post_results p w)) = [] \<longleftrightarrow>
            LastWriteTime f < c \<or> (\<exists>m. Get_Content w f = Inl m)) \<and>
         (\<not> LastWriteTime f < c \<longrightarrow>
            Write_Host (PostingFile f) \<in> set (fst (aqa_post_results p w))) \<and>
         Hours default_params = 72"
proof -
  have r: "requests_for f (fst (aqa_post_results p w)) = [] \<longleftrightarrow>
            LastWriteTime f < c \<or> (\<exists>m. Get_Content w f = Inl m)"
    using assms(3)
    by (cases "Get_Content w f")
       (auto simp: requests_for_empty request_in_loop [OF assms(1) assms(2)])
  have a: "Write_Host (PostingFile f) \<in> set (fst (aqa_post_results p w))"
    if "\<not> LastWriteTime f < c"
    using that assms(3)
    by (auto simp: in_trace_in_loop [OF assms(1) assms(2)] posting_process_file)
  show ?thesis
    using r a assms(3) enters_loop_cutoff [OF assms(1)]
    by (simp add: skipped_in_loop [OF assms(1) assms(2)] default_params_def)
qed

theorem uploader_skips_old_files_witness:
  "enters_loop default_params example_world 637997408000000000 \<and>
   credential_ok example_world \<and>
   old_file \<in> set (Get_ChildItem example_world (pattern default_params example_world)) \<and>
   fresh_file \<in> set (Get_ChildItem example_world (pattern default_params example_world)) \<and>
   skipped old_file (fst (aqa_post_results default_params example_world)) \<and>
   requests_for old_file (fst (aqa_post_results default_params example_world)) = [] \<and>
   \<not> skipped fresh_file (fst (aqa_post_results default_params example_world)) \<and>
   requests_for fresh_file (fst (aqa_post_results default_params example_world)) \<noteq> []"
proof -
  have m: "old_file \<in> set (Get_ChildItem example_world (pattern default_params example_world))"
    "fresh_file \<in> set (Get_ChildItem example_world (pattern default_params example_world))"
    by (simp_all add: example_files)
  note k1 = uploader_skips_old_files [OF example_enters_loop example_credential m(1)]
  note k2 = uploader_skips_old_files [OF example_enters_loop example_credential m(2)]
  have s1: "skipped old_file (fst (aqa_post_results default_params example_world))"
    using k1 [THEN conjunct2, THEN conjunct1] example_ages(1) by simp
  have r1: "requests_for old_file (fst (aqa_post_results default_params example_world)) = []"
    using k1 [THEN conjunct2, THEN conjunct2, THEN conjunct1] example_ages(1) by simp
  have s2: "\<not> skipped fresh_file (fst (aqa_post_results default_params example_world))"
    using k2 [THEN conjunct2, THEN conjunct1] example_ages(4) by simp
  have r2: "requests_for fresh_file (fst (aqa_post_results default_params example_world)) \<noteq> []"
    using k2 [THEN conjunct2, THEN conjunct2, THEN conjunct1] example_ages(4)
      example_content [of fresh_file] by simp
  show ?thesis by (intro conjI example_enters_loop example_credential m s1 r1 s2 r2)
qed

text \<open>
  C4. When a request was sent for a file and came back with a response, no exception
  thrown, the script prints the success line exactly when the status code is at least
  200 and below 300, and the line of an unexpected status otherwise. In neither case does
  it print the failure line for the file, and the run ends with \<open>Done.\<close> and exit code 0.
\<close>

theorem uploader_status_classification:
  assumes "(f, r) \<in> set (requests (fst (aqa_post_results p w)))"
    and "Invoke_WebRequest w f r = Response statusCode responseBody"
  shows "(Write_Host (SuccessfullyPosted f statusCode) \<in> set (fst (aqa_post_results p w)) \<longleftrightarrow>
            200 \<le> statusCode \<and> statusCode < 300) \<and>
         (Write_Host (UnexpectedStatus f statusCode) \<in> set (fst (aqa_post_results p w)) \<longleftrightarrow>
            \<not> (200 \<le> statusCode \<and> statusCode < 300)) \<and>
         (\<forall>st. Write_Host (FailedToPost f st) \<notin> set (fst (aqa_post_results p w))) \<and>
         last (fst (aqa_post_results p w)) = Write_Host Done \<and>
         snd (aqa_post_results p w) = 0"
proof -
  from request_sent [OF assms(1)] obtain c body where
    loop: "enters_loop p w c" and cred: "credential_ok w" and
    f: "f \<in> set (Get_ChildItem w (pattern p w))" "\<not> LastWriteTime f < c"
      "Get_Content w f = Inr body" and
    r: "r = requestParams p w (env_value (env_vars w) ''AQA_USER'',
                 env_value (env_vars w) ''AQA_PASSWORD'') body"
    by blast
  note resp = assms(2) [unfolded r]
  have a: "Write_Host (SuccessfullyPosted f statusCode) \<in> set (fst (aqa_post_results p w)) \<longleftrightarrow>
            200 \<le> statusCode \<and> statusCode < 300"
    using f resp
    by (auto simp: in_trace_in_loop [OF loop cred] classified_process_file [OF cred] preamble_def)
  have b: "Write_Host (UnexpectedStatus f statusCode) \<in> set (fst (aqa_post_results p w)) \<longleftrightarrow>
            \<not> (200 \<le> statusCode \<and> statusCode < 300)"
    using f resp
    by (auto simp: in_trace_in_loop [OF loop cred] classified_process_file [OF cred] preamble_def)
  have c: "Write_Host (FailedToPost f st) \<notin> set (fst (aqa_post_results p w))" for st
    using f resp
    by (auto simp: in_trace_in_loop [OF loop cred] classified_process_file [OF cred] preamble_def)
  show ?thesis using a b c by (simp add: trace_in_loop [OF loop cred])
qed

theorem uploader_status_classification_witness:
  "(redirected_file, requestParams default_params example_world (''qa'', ''secret'') ''<testsuites/>'')
      \<in> set (requests (fst (aqa_post_results default_params example_world))) \<and>
   Invoke_WebRequest example_world redirected_file
      (requestParams default_params example_world (''qa'', ''secret'') ''<testsuites/>'')
      = Response 304 [] \<and>
   Invoke_WebRequest example_world fresh_file
      (requestParams default_params example_world (''qa'', ''secret'') ''<testsuites/>'')
      = Response 200 ''stored'' \<and>
   Write_Host (UnexpectedStatus redirected_file 304)
      \<in> set (fst (aqa_post_results default_params example_world)) \<and>
   Write_Host (SuccessfullyPosted redirected_file 304)
      \<notin> set (fst (aqa_post_results default_params example_world)) \<and>
   Write_Host (SuccessfullyPosted fresh_file 200)
      \<in> set (fst (aqa_post_results default_params example_world)) \<and>
   snd (aqa_post_results default_params example_world) = 0"
proof -
  have m: "(redirected_file,
        requestParams default_params example_world (''qa'', ''secret'') ''<testsuites/>'')
      \<in> set (requests (fst (aqa_post_results default_params example_world)))"
    "(fresh_file,
        requestParams default_params example_world (''qa'', ''secret'') ''<testsuites/>'')
      \<in> set (requests (fst (aqa_post_results default_params example_world)))"
    by (simp_all add: request_in_loop [OF example_enters_loop example_credential] example_files
        example_ages example_content example_credential_values)
  have r: "Invoke_WebRequest example_world redirected_file
      (requestParams default_params example_world (''qa'', ''secret'') ''<testsuites/>'')
      = Response 304 []"
    "Invoke_WebRequest example_world fresh_file
      (requestParams default_params example_world (''qa'', ''secret'') ''<testsuites/>'')
      = Response 200 ''stored''"
    by (simp_all add: example_world_def redirected_file_def fresh_file_def)
  note k1 = uploader_status_classification [OF m(1) r(1)]
  note k2 = uploader_status_classification [OF m(2) r(2)]
  have u: "Write_Host (UnexpectedStatus redirected_file 304)
      \<in> set (fst (aqa_post_results default_params example_world))"
    using k1 [THEN conjunct2, THEN conjunct1] by simp
  have n: "Write_Host (SuccessfullyPosted redirected_file 304)
      \<notin> set (fst (aqa_post_results default_params example_world))"
    using k1 [THEN conjunct1] by simp
  have s: "Write_Host (SuccessfullyPosted fresh_file 200)
      \<in> set (fst (aqa_post_results default_params example_world))"
    using k2 [THEN conjunct1] by simp
  note z = k1 [THEN conjunct2, THEN conjunct2, THEN conjunct2, THEN conjunct2]
  show ?thesis by (intro conjI m(1) r u n s z)
qed






text \<open>
  C7. Every request the script sends for a file is a \<open>Post\<close> to the value of
  \<open>AQA_ENDPOINT\<close>, with exactly the nine headers \<open>Content-Type: application/xml\<close>,
  \<open>Test-Engine-Result-Format\<close>, \<open>Test-Engine\<close>, \<open>Tags\<close>, \<open>aqa-team\<close>, \<open>aqa-project\<close>,
  \<open>aqa-application\<close>, \<open>aqa-product\<close> and \<open>aqa-environment\<close> filled from the parameters, a
  credential made of the values of \<open>AQA_USER\<close> and \<open>AQA_PASSWORD\<close>, and the text read
  from the file as its body.
\<close>

theorem uploader_request_contract:
  assumes "(f, r) \<in> set (requests (fst (aqa_post_results p w)))"
  shows "env_vars w ''AQA_ENDPOINT'' = Some (Uri r) \<and>
         Method r = ''Post'' \<and>
         Headers r =
           [(''Content-Type'', ''application/xml''),
            (''Test-Engine-Result-Format'', ResultFormat p),
            (''Test-Engine'', Engine p),
            (''Tags'', Tags p),
            (''aqa-team'', Team p),
            (''aqa-project'', Project p),
            (''aqa-application'', Application p),
            (''aqa-product'', Product p),
            (''aqa-environment'', Environment p)] \<and>
         env_vars w ''AQA_USER'' = Some (fst (Credential r)) \<and>
         env_vars w ''AQA_PASSWORD'' = Some (snd (Credential r)) \<and>
         Get_Content w f = Inr (Body r) \<and>
         f \<in> set (Get_ChildItem w (pattern p w))"
proof -
  from request_sent [OF assms] obtain c body where
    loop: "enters_loop p w c" and
    f: "f \<in> set (Get_ChildItem w (pattern p w))" "Get_Content w f = Inr body" and
    r: "r = requestParams p w (env_value (env_vars w) ''AQA_USER'',
                 env_value (env_vars w) ''AQA_PASSWORD'') body"
    by blast
  from loop obtain u pw e where env: "env_vars w ''AQA_USER'' = Some u"
      "env_vars w ''AQA_PASSWORD'' = Some pw" "env_vars w ''AQA_ENDPOINT'' = Some e"
    by (auto simp: enters_loop_def missing_none)
  show ?thesis using f env
    by (simp add: r requestParams_def headers_def env_value_def)
qed

theorem uploader_request_contract_witness:
  "(fresh_file, requestParams default_params example_world (''qa'', ''secret'') ''<testsuites/>'')
     \<in> set (requests (fst (aqa_post_results default_params example_world))) \<and>
   Uri (requestParams default_params example_world (''qa'', ''secret'') ''<testsuites/>'')
     = ''https://qa.example.org/in-http'' \<and>
   Credential (requestParams default_params example_world (''qa'', ''secret'') ''<testsuites/>'')
     = (''qa'', ''secret'') \<and>
   Body (requestParams default_params example_world (''qa'', ''secret'') ''<testsuites/>'')
     = ''<testsuites/>'' \<and>
   map fst (Headers (requestParams default_params example_world (''qa'', ''secret'')
       ''<testsuites/>''))
     = [''Content-Type'', ''Test-Engine-Result-Format'', ''Test-Engine'', ''Tags'', ''aqa-team'',
        ''aqa-project'', ''aqa-application'', ''aqa-product'', ''aqa-environment'']"
proof -
  have h: "(fresh_file,
       requestParams default_params example_world (''qa'', ''secret'') ''<testsuites/>'')
     \<in> set (requests (fst (aqa_post_results default_params example_world)))"
    by (simp add: request_in_loop [OF example_enters_loop example_credential] example_files
        example_ages example_content example_credential_values)
  have e: "env_vars example_world ''AQA_ENDPOINT'' = Some ''https://qa.example.org/in-http''"
    "env_vars example_world ''AQA_USER'' = Some ''qa''"
    "env_vars example_world ''AQA_PASSWORD'' = Some ''secret''"
    by (simp_all add: example_world_def example_env_def)
  note k = uploader_request_contract [OF h]
  have u: "Uri (requestParams default_params example_world (''qa'', ''secret'') ''<testsuites/>'')
     = ''https://qa.example.org/in-http''"
    using k e(1) by simp
  have c: "Credential (requestParams default_params example_world (''qa'', ''secret'')
       ''<testsuites/>'') = (''qa'', ''secret'')"
    using k e(2,3)
    by (cases "Credential (requestParams default_params example_world (''qa'', ''secret'')
          ''<testsuites/>'')") simp
  have b: "Body (requestParams default_params example_world (''qa'', ''secret'') ''<testsuites/>'')
     = ''<testsuites/>''"
    using k example_content [of fresh_file] by simp
  have n: "map fst (Headers (requestParams default_params example_world (''qa'', ''secret'')
       ''<testsuites/>''))
     = [''Content-Type'', ''Test-Engine-Result-Format'', ''Test-Engine'', ''Tags'', ''aqa-team'',
        ''aqa-project'', ''aqa-application'', ''aqa-product'', ''aqa-environment'']"
    using k by simp
  show ?thesis by (intro conjI h u c b n)
qed

text \<open>
  C10, as the claim states it, fails in its second half. With the three variables set
  and no file matching, a run whose results directory does not exist prints an error
  and ends with exit code 1; and so does a run whose \<open>Hours\<close> takes the cutoff before the
  first date, at the computation of the cutoff: neither ends with a warning and exit
  code 0.
\<close>

theorem uploader_early_exits_counterexample:
  "missing_vars (env_vars no_directory_world) requiredEnvVars = [] \<and>
   Get_ChildItem no_directory_world (pattern default_params no_directory_world) = [] \<and>
   aqa_post_results default_params no_directory_world
     = ([Write_Error ''Results directory not found: ./test-results''], 1) \<and>
   missing_vars (env_vars no_files_world) requiredEnvVars = [] \<and>
   Get_ChildItem no_files_world (pattern huge_hours_params no_files_world) = [] \<and>
   aqa_post_results huge_hours_params no_files_world
     = ([Terminating_Error ''AddHours: the resulting DateTime is out of range''], 1)"
  by (simp add: huge_hours_run)
     (simp add: aqa_post_results_def no_directory_world_def no_files_world_def example_world_def
      example_env_def requiredEnvVars_def default_params_def)

text \<open>
  C10, amended. When one of \<open>AQA_USER\<close>, \<open>AQA_PASSWORD\<close> and \<open>AQA_ENDPOINT\<close> is not set,
  the run consists of one error that names exactly the variables that are not set, and
  exit code 1: no request is sent, and the run is the same whatever files there are,
  whatever they hold and whatever the server would answer. When all three are set and
  the results directory does not exist, the run consists of one error naming the
  directory, and exit code 1. When all three are set, the directory exists and the
  cutoff is not a date that exists, the run consists of the error of the date
  arithmetic, and exit code 1. When all three are set, the directory exists, the cutoff
  is a date that exists and no file matches the pattern, the run ends with a warning and
  exit code 0, and no request is sent.
\<close>

theorem uploader_early_exits:
  "(missing_vars (env_vars w) requiredEnvVars \<noteq> [] \<longrightarrow>
      aqa_post_results p w =
        ([Write_Error (''Missing required environment variables: '' @
            join '', '' (missing_vars (env_vars w) requiredEnvVars))], 1) \<and>
      set (missing_vars (env_vars w) requiredEnvVars) =
        {v \<in> {''AQA_USER'', ''AQA_PASSWORD'', ''AQA_ENDPOINT''}. env_vars w v = None} \<and>
      (\<forall>files content server.
         aqa_post_results p
           (w\<lparr>Get_ChildItem := files, Get_Content := content, Invoke_WebRequest := server\<rparr>)
         = aqa_post_results p w)) \<and>
   (missing_vars (env_vars w) requiredEnvVars = [] \<and> \<not> is_container w (ResultsDir p) \<longrightarrow>
      aqa_post_results p w =
        ([Write_Error (''Results directory not found: '' @ ResultsDir p)], 1)) \<and>
   (missing_vars (env_vars w) requiredEnvVars = [] \<and> is_container w (ResultsDir p) \<and>
    cutoffTime p w = None \<longrightarrow>
      aqa_post_results p w =
        ([Terminating_Error ''AddHours: the resulting DateTime is out of range''], 1)) \<and>
   (missing_vars (env_vars w) requiredEnvVars = [] \<and> is_container w (ResultsDir p) \<and>
    cutoffTime p w = Some c \<and> Get_ChildItem w (pattern p w) = [] \<longrightarrow>
      c = Get_Date w - Hours p * ticks_per_hour \<and>
      aqa_post_results p w =
        (preamble p w c @
         [Write_Warning (''No files found matching pattern: '' @ pattern p w)], 0) \<and>
      requests (fst (aqa_post_results p w)) = [])"
proof (intro conjI impI)
  assume m: "missing_vars (env_vars w) requiredEnvVars \<noteq> []"
  then show "aqa_post_results p w =
        ([Write_Error (''Missing required environment variables: '' @
            join '', '' (missing_vars (env_vars w) requiredEnvVars))], 1)"
    by (simp add: aqa_post_results_def Let_def)
  show "set (missing_vars (env_vars w) requiredEnvVars) =
        {v \<in> {''AQA_USER'', ''AQA_PASSWORD'', ''AQA_ENDPOINT''}. env_vars w v = None}"
    by (simp only: missing_vars_set) (simp add: requiredEnvVars_def)
  show "\<forall>files content server.
         aqa_post_results p
           (w\<lparr>Get_ChildItem := files, Get_Content := content, Invoke_WebRequest := server\<rparr>)
         = aqa_post_results p w"
    using m by (simp add: aqa_post_results_def Let_def)
next
  assume "missing_vars (env_vars w) requiredEnvVars = [] \<and> \<not> is_container w (ResultsDir p)"
  then show "aqa_post_results p w =
        ([Write_Error (''Results directory not found: '' @ ResultsDir p)], 1)"
    by (simp add: aqa_post_results_def Let_def)
next
  assume "missing_vars (env_vars w) requiredEnvVars = [] \<and> is_container w (ResultsDir p) \<and>
    cutoffTime p w = None"
  then show "aqa_post_results p w =
        ([Terminating_Error ''AddHours: the resulting DateTime is out of range''], 1)"
    by (simp add: aqa_post_results_def Let_def)
next
  assume h: "missing_vars (env_vars w) requiredEnvVars = [] \<and> is_container w (ResultsDir p) \<and>
    cutoffTime p w = Some c \<and> Get_ChildItem w (pattern p w) = []"
  then show "c = Get_Date w - Hours p * ticks_per_hour"
    by (auto simp: cutoffTime_def AddHours_def Let_def split: if_splits)
  from h show r: "aqa_post_results p w =
        (preamble p w c @
         [Write_Warning (''No files found matching pattern: '' @ pattern p w)], 0)"
    by (simp add: aqa_post_results_def Let_def)
  show "requests (fst (aqa_post_results p w)) = []"
    by (simp add: r requests_append preamble_def)
qed

theorem uploader_early_exits_witness:
  "missing_vars (env_vars no_password_world) requiredEnvVars = [''AQA_PASSWORD''] \<and>
   aqa_post_results default_params no_password_world =
     ([Write_Error ''Missing required environment variables: AQA_PASSWORD''], 1) \<and>
   missing_vars (env_vars no_directory_world) requiredEnvVars = [] \<and>
   \<not> is_container no_directory_world (ResultsDir default_params) \<and>
   snd (aqa_post_results default_params no_directory_world) = 1 \<and>
   is_container no_files_world (ResultsDir huge_hours_params) \<and>
   cutoffTime huge_hours_params no_files_world = None \<and>
   snd (aqa_post_results huge_hours_params no_files_world) = 1 \<and>
   is_container no_files_world (ResultsDir default_params) \<and>
   cutoffTime default_params no_files_world = Some 637997408000000000 \<and>
   Get_ChildItem no_files_world (pattern default_params no_files_world) = [] \<and>
   snd (aqa_post_results default_params no_files_world) = 0 \<and>
   last (fst (aqa_post_results default_params no_files_world)) =
     Write_Warning ''No files found matching pattern: ./test-results/*results.xml'' \<and>
   requests (fst (aqa_post_results default_params no_files_world)) = []"
proof -
  have a: "missing_vars (env_vars no_password_world) requiredEnvVars = [''AQA_PASSWORD'']"
    by (simp add: no_password_world_def example_world_def example_env_def requiredEnvVars_def)
  have b: "missing_vars (env_vars no_directory_world) requiredEnvVars = []"
    "\<not> is_container no_directory_world (ResultsDir default_params)"
    by (simp_all add: no_directory_world_def example_world_def example_env_def
        requiredEnvVars_def)
  have c: "missing_vars (env_vars no_files_world) requiredEnvVars = []"
    "is_container no_files_world (ResultsDir default_params)"
    "cutoffTime default_params no_files_world = Some 637997408000000000"
    "Get_ChildItem no_files_world (pattern default_params no_files_world) = []"
    "pattern default_params no_files_world = ''./test-results/*results.xml''"
    by (simp_all add: no_files_world_def example_world_def example_env_def
        requiredEnvVars_def default_params_def pattern_def cutoffTime_def AddHours_def
        ticks_per_hour_def MaxTicks_def)
  have d: "is_container no_files_world (ResultsDir huge_hours_params)"
    "cutoffTime huge_hours_params no_files_world = None"
    by (simp_all add: no_files_world_def example_world_def huge_hours_params_def
        default_params_def cutoffTime_def AddHours_def ticks_per_hour_def MaxTicks_def)
  have a': "missing_vars (env_vars no_password_world) requiredEnvVars \<noteq> []"
    by (simp add: a)
  from uploader_early_exits [of no_password_world default_params, THEN conjunct1, THEN mp,
      OF a', THEN conjunct1]
  have r1: "aqa_post_results default_params no_password_world =
     ([Write_Error ''Missing required environment variables: AQA_PASSWORD''], 1)"
    by (simp add: a)
  from uploader_early_exits [of no_directory_world default_params, THEN conjunct2,
      THEN conjunct1, THEN mp, OF conjI [OF b(1) b(2)]]
  have r2: "snd (aqa_post_results default_params no_directory_world) = 1"
    by simp
  from uploader_early_exits [of no_files_world huge_hours_params, THEN conjunct2,
      THEN conjunct2, THEN conjunct1, THEN mp, OF conjI [OF c(1) conjI [OF d(1) d(2)]]]
  have r3: "snd (aqa_post_results huge_hours_params no_files_world) = 1"
    by simp
  note k = uploader_early_exits [of no_files_world default_params 637997408000000000,
      THEN conjunct2, THEN conjunct2, THEN conjunct2, THEN mp,
      OF conjI [OF c(1) conjI [OF c(2) conjI [OF c(3) c(4)]]]]
  from k [THEN conjunct2, THEN conjunct1]
  have r4: "snd (aqa_post_results default_params no_files_world) = 0"
    "last (fst (aqa_post_results default_params no_files_world)) =
       Write_Warning ''No files found matching pattern: ./test-results/*results.xml''"
    by (simp_all add: c(5))
  note r5 = k [THEN conjunct2, THEN conjunct2]
  show ?thesis by (intro conjI a r1 b r2 d r3 c(2) c(3) c(4) r4 r5)
qed

section \<open>Properties of the operator scripts\<close>

lemma sh_seq_ok: "snd a = Inr () \<Longrightarrow> sh_seq a b = (fst a @ fst b, snd b)"
  by (cases a; cases b) (simp add: sh_seq_def)

lemma sh_seq_exit: "snd a = Inl code \<Longrightarrow> sh_seq a b = (fst a, Inl code)"
  by (cases a) (simp add: sh_seq_def)

lemma emit_parts: "fst (emit e) = [e]" "snd (emit e) = Inr ()"
  by (simp_all add: emit_def)

lemma execs_append: "execs (xs @ ys) = execs xs @ execs ys"
  by (induction xs rule: execs.induct) simp_all

lemma exports_append: "exports (xs @ ys) = exports xs @ exports ys"
  by (induction xs rule: exports.induct) simp_all

lemma check_dependencies_ready:
  "ready w \<Longrightarrow> check_dependencies w =
     ([Print_status ''Checking dependencies...'', Print_success ''Dependencies check passed''],
      Inr ())"
  by (simp add: ready_def check_dependencies_def sh_seq_ok emit_parts)

lemma report_base_url_parts:
  "snd (report_base_url w) = Inr ()"
  "execs (fst (report_base_url w)) = []"
  "exports (fst (report_base_url w)) = []"
  "BASE_URL w = Some url \<Longrightarrow> url \<noteq> [] \<Longrightarrow>
     fst (report_base_url w) = [Print_status (''Using BASE_URL: '' @ url)]"
  by (simp_all add: report_base_url_def emit_def split: option.splits)

lemma junit_output_made:
  "results_dir_made w \<Longrightarrow> junit_output w =
     ([Exec [''mkdir'', ''-p'', ''./junit-results''],
       Export ''PLAYWRIGHT_JUNIT_OUTPUT_DIR'' ''./junit-results'',
       Export ''PLAYWRIGHT_JUNIT_OUTPUT_NAME'' (''junit-'' @ date_stamp w @ ''.xml'')], Inr ())"
  by (simp add: results_dir_made_def junit_output_def sh_seq_def emit_def external_def)

lemma junit_output_not_made:
  "\<not> results_dir_made w \<Longrightarrow>
     (\<exists>code. snd (junit_output w) = Inl code \<and> code \<noteq> 0) \<and>
     set (execs (fst (junit_output w))) \<subseteq> {[''mkdir'', ''-p'', ''./junit-results'']}"
  by (cases "installed w ''mkdir''")
     (simp_all add: results_dir_made_def junit_output_def sh_seq_def emit_def external_def)

lemma external_parts:
  "installed w cmd \<Longrightarrow> fst (external w cmd args) = [Exec (cmd # args)]"
  "installed w cmd \<Longrightarrow> snd (external w cmd args) =
     (if exit_status w (cmd # args) = 0 then Inr () else Inl (exit_status w (cmd # args)))"
  by (simp_all add: external_def)

lemma external_then_emit:
  assumes "installed w cmd"
  shows "execs (fst (sh_seq (external w cmd args) (emit (Print_success s)))) = [cmd # args]"
    and "exports (fst (sh_seq (external w cmd args) (emit (Print_success s)))) = []"
    and "snd (sh_seq (external w cmd args) (emit (Print_success s))) =
     (if exit_status w (cmd # args) = 0 then Inr () else Inl (exit_status w (cmd # args)))"
proof -
  show "execs (fst (sh_seq (external w cmd args) (emit (Print_success s)))) = [cmd # args]"
    using assms
    by (cases "exit_status w (cmd # args) = 0") (simp_all add: sh_seq_def external_def emit_def)
  show "exports (fst (sh_seq (external w cmd args) (emit (Print_success s)))) = []"
    using assms
    by (cases "exit_status w (cmd # args) = 0") (simp_all add: sh_seq_def external_def emit_def)
  show "snd (sh_seq (external w cmd args) (emit (Print_success s))) =
     (if exit_status w (cmd # args) = 0 then Inr () else Inl (exit_status w (cmd # args)))"
    using assms
    by (cases "exit_status w (cmd # args) = 0") (simp_all add: sh_seq_def external_def emit_def)
qed

lemma run_tests_parts:
  assumes "installed w ''npm''" "results_dir_made w"
  shows "execs (fst (run_tests w t d)) =
           [[''mkdir'', ''-p'', ''./junit-results''], [''npm'', ''run'', t]]"
    and "exports (fst (run_tests w t d)) =
           [(''PLAYWRIGHT_JUNIT_OUTPUT_DIR'', ''./junit-results''),
            (''PLAYWRIGHT_JUNIT_OUTPUT_NAME'', ''junit-'' @ date_stamp w @ ''.xml'')]"
    and "snd (run_tests w t d) =
     (if exit_status w [''npm'', ''run'', t] = 0 then Inr ()
      else Inl (exit_status w [''npm'', ''run'', t]))"
    and "BASE_URL w = Some url \<Longrightarrow> url \<noteq> [] \<Longrightarrow>
     Print_status (''Using BASE_URL: '' @ url) \<in> set (fst (run_tests w t d))"
  by (simp_all add: run_tests_def sh_seq_ok emit_parts report_base_url_parts
      junit_output_made [OF assms(2)] execs_append exports_append
      external_then_emit [OF assms(1)])

lemma run_tests_not_made:
  assumes "\<not> results_dir_made w"
  shows "[''npm'', ''run'', t] \<notin> set (execs (fst (run_tests w t d)))"
    and "\<exists>code. snd (run_tests w t d) = Inl code \<and> code \<noteq> 0"
proof -
  from junit_output_not_made [OF assms] obtain code where
    j: "snd (junit_output w) = Inl code" "code \<noteq> 0"
      "set (execs (fst (junit_output w))) \<subseteq> {[''mkdir'', ''-p'', ''./junit-results'']}"
    by blast
  have r: "run_tests w t d =
      ([Print_status (''Running '' @ d @ ''...'')] @ fst (report_base_url w) @
       fst (junit_output w), Inl code)"
    by (simp add: run_tests_def sh_seq_ok emit_parts report_base_url_parts sh_seq_exit [OF j(1)])
  show "[''npm'', ''run'', t] \<notin> set (execs (fst (run_tests w t d)))"
    using j(3) by (auto simp: r execs_append report_base_url_parts)
  show "\<exists>code. snd (run_tests w t d) = Inl code \<and> code \<noteq> 0"
    using j(2) by (simp add: r)
qed

lemma run_sh_body_help:
  "a \<notin> set sub_commands \<Longrightarrow> run_sh_body w a = emit Show_help"
  "run_sh_body w ''help'' = emit Show_help"
  unfolding sub_commands_def run_sh_body_def by simp_all

lemma run_sh_help:
  assumes "arg = None \<or> arg = Some [] \<or> arg = Some ''help'' \<or>
           (\<exists>a. arg = Some a \<and> a \<notin> set sub_commands)"
  shows "run_sh w arg = ([Show_help], 0)"
proof -
  have "run_sh_body w (case arg of None \<Rightarrow> ''help'' | Some a \<Rightarrow> if a = [] then ''help'' else a)
          = emit Show_help"
    using assms by (elim disjE exE conjE) (simp_all add: run_sh_body_help)
  then show ?thesis by (simp add: run_sh_def emit_def)
qed

lemma run_sh_body_tests:
  "(c, s, d) \<in> set test_scripts \<Longrightarrow>
     run_sh_body w c = sh_seq (check_dependencies w) (run_tests w s d)"
  apply (simp add: test_scripts_def)
  apply (elim disjE conjE)
         apply (simp_all add: run_sh_body_def)
  done

lemma run_sh_nonempty:
  "c \<noteq> [] \<Longrightarrow> run_sh w (Some c) =
     (fst (run_sh_body w c), case snd (run_sh_body w c) of Inl code \<Rightarrow> code | Inr _ \<Rightarrow> 0)"
  by (cases "run_sh_body w c") (simp add: run_sh_def split: sum.splits)

lemma test_scripts_nonempty: "(c, s, d) \<in> set test_scripts \<Longrightarrow> c \<noteq> []"
  unfolding test_scripts_def by (simp, elim disjE conjE, simp_all)

lemma run_sh_tests_body:
  assumes "ready w" "(c, s, d) \<in> set test_scripts"
  shows "run_sh w (Some c) =
      ([Print_status ''Checking dependencies...'', Print_success ''Dependencies check passed'']
         @ fst (run_tests w s d),
       case snd (run_tests w s d) of Inl code \<Rightarrow> code | Inr _ \<Rightarrow> 0)"
proof -
  have "run_sh_body w c = sh_seq (check_dependencies w) (run_tests w s d)"
    using assms(2) by (rule run_sh_body_tests)
  then have b: "run_sh_body w c =
      ([Print_status ''Checking dependencies...'', Print_success ''Dependencies check passed'']
         @ fst (run_tests w s d), snd (run_tests w s d))"
    using assms(1) by (simp add: check_dependencies_ready sh_seq_ok)
  have n: "c \<noteq> []" using assms(2) by (rule test_scripts_nonempty)
  show ?thesis using n b by (simp add: run_sh_nonempty)
qed

lemma run_sh_tests:
  assumes "ready w" "results_dir_made w" "(c, s, d) \<in> set test_scripts"
  shows "execs (fst (run_sh w (Some c))) =
           [[''mkdir'', ''-p'', ''./junit-results''], [''npm'', ''run'', s]]"
    and "exports (fst (run_sh w (Some c))) =
           [(''PLAYWRIGHT_JUNIT_OUTPUT_DIR'', ''./junit-results''),
            (''PLAYWRIGHT_JUNIT_OUTPUT_NAME'', ''junit-'' @ date_stamp w @ ''.xml'')]"
    and "snd (run_sh w (Some c)) = exit_status w [''npm'', ''run'', s]"
    and "BASE_URL w = Some url \<Longrightarrow> url \<noteq> [] \<Longrightarrow>
           Print_status (''Using BASE_URL: '' @ url) \<in> set (fst (run_sh w (Some c)))"
proof -
  note b = run_sh_tests_body [OF assms(1) assms(3)]
  have npm: "installed w ''npm''" using assms(1) by (simp add: ready_def)
  note rt = run_tests_parts [OF npm assms(2)]
  show "execs (fst (run_sh w (Some c))) =
           [[''mkdir'', ''-p'', ''./junit-results''], [''npm'', ''run'', s]]"
    by (simp add: b rt(1) execs_append)
  show "exports (fst (run_sh w (Some c))) =
           [(''PLAYWRIGHT_JUNIT_OUTPUT_DIR'', ''./junit-results''),
            (''PLAYWRIGHT_JUNIT_OUTPUT_NAME'', ''junit-'' @ date_stamp w @ ''.xml'')]"
    by (simp add: b rt(2) exports_append)
  show "snd (run_sh w (Some c)) = exit_status w [''npm'', ''run'', s]"
    by (simp add: b rt(3))
  show "Print_status (''Using BASE_URL: '' @ url) \<in> set (fst (run_sh w (Some c)))"
    if "BASE_URL w = Some url" "url \<noteq> []"
  proof -
    from rt(4) [OF that]
    have "Print_status (''Using BASE_URL: '' @ url) \<in> set (fst (run_tests w s d))" .
    then show ?thesis by (simp add: b)
  qed
qed

lemma run_sh_tests_not_made:
  assumes "ready w" "\<not> results_dir_made w" "(c, s, d) \<in> set test_scripts"
  shows "[''npm'', ''run'', s] \<notin> set (execs (fst (run_sh w (Some c))))"
    and "snd (run_sh w (Some c)) \<noteq> 0"
proof -
  note b = run_sh_tests_body [OF assms(1) assms(3)]
  note n = run_tests_not_made [OF assms(2), of s d]
  show "[''npm'', ''run'', s] \<notin> set (execs (fst (run_sh w (Some c))))"
    using n(1) by (simp add: b execs_append)
  from n(2) obtain code where "snd (run_tests w s d) = Inl code" "code \<noteq> 0" by blast
  then show "snd (run_sh w (Some c)) \<noteq> 0" by (simp add: b)
qed

lemma run_sh_ci:
  assumes "ready w" "results_dir_made w" "installed w ''npx''"
  shows "execs (fst (run_sh w (Some ''ci''))) =
           [[''mkdir'', ''-p'', ''./junit-results''],
            [''npx'', ''playwright'', ''test'', ''--reporter=html,junit,json'']]"
proof -
  have "run_sh_body w ''ci'' =
      sh_seq (check_dependencies w)
       (sh_seq (emit (Print_status ''Running tests with CI reporters...''))
       (sh_seq (report_base_url w)
       (sh_seq (junit_output w)
               (external w ''npx'' [''playwright'', ''test'', ''--reporter=html,junit,json'']))))"
    by (simp add: run_sh_body_def)
  then show ?thesis using assms(1)
    by (simp add: run_sh_nonempty check_dependencies_ready sh_seq_ok emit_parts
        report_base_url_parts junit_output_made [OF assms(2)] external_parts [OF assms(3)]
        execs_append)
qed

lemma run_sh_report:
  assumes "has_report w" "installed w ''npm''"
  shows "execs (fst (run_sh w (Some ''report''))) = [[''npm'', ''run'', ''report'']]"
proof -
  have "run_sh_body w ''report'' =
      sh_seq (emit (Print_status ''Opening test report...''))
        (external w ''npm'' [''run'', ''report''])"
    using assms(1) by (simp add: run_sh_body_def)
  then show ?thesis
    by (simp add: run_sh_nonempty sh_seq_ok emit_parts external_parts [OF assms(2)] execs_append)
qed

lemma run_sh_setup:
  assumes "ready w"
  shows "hd (execs (fst (run_sh w (Some ''setup'')))) = [''npm'', ''install'']"
proof -
  have npm: "installed w ''npm''" using assms by (simp add: ready_def)
  have "run_sh_body w ''setup'' =
      sh_seq (check_dependencies w)
       (sh_seq (install_dependencies w)
       (sh_seq (install_browsers w)
               (emit (Print_success ''Setup completed successfully''))))"
    by (simp add: run_sh_body_def)
  then show ?thesis using assms
    by (cases "exit_status w [''npm'', ''install''] = 0")
       (simp_all add: run_sh_nonempty check_dependencies_ready sh_seq_ok sh_seq_exit emit_parts
          install_dependencies_def external_parts [OF npm] execs_append)
qed

text \<open>Without node, npm or \<open>package.json\<close> the dependency check ends the script with
  code 1 before anything is started.\<close>

lemma check_dependencies_not_ready:
  "\<not> ready w \<Longrightarrow>
     snd (check_dependencies w) = Inl 1 \<and> execs (fst (check_dependencies w)) = []"
  by (cases "installed w ''node''"; cases "installed w ''npm''"; cases "has_package_json w")
     (simp_all add: ready_def check_dependencies_def sh_seq_def emit_def exit_with_def)

text \<open>The \<open>codegen\<close> branch declares a \<open>local\<close> variable outside any function, which
  bash refuses; the code generator is never started and the script ends with code 1.\<close>

lemma codegen_never_starts:
  "execs (fst (run_sh w (Some ''codegen''))) = [] \<and> snd (run_sh w (Some ''codegen'')) = 1"
proof -
  have b: "run_sh_body w ''codegen'' =
      sh_seq (check_dependencies w)
       (sh_seq (emit (Bash_error ''local: can only be used in a function'')) (exit_with 1))"
    by (simp add: run_sh_body_def)
  show ?thesis
  proof (cases "ready w")
    case True
    then show ?thesis
      by (simp add: run_sh_nonempty b check_dependencies_ready sh_seq_ok emit_parts
          exit_with_def execs_append)
  next
    case False
    from check_dependencies_not_ready [OF False] show ?thesis
      by (simp add: run_sh_nonempty b sh_seq_exit)
  qed
qed

text \<open>The configuration of the test runner takes its base address from no variable of
  the environment.\<close>

lemma config_baseURL_fixed: "baseURL (playwright_config env) = ''https://dev.analytiqa.cloud''"
  by (simp add: playwright_config_def)

text \<open>
  C6, as the claim states it, fails for \<open>run.ps1\<close>: started without an argument it
  prints no help and runs the tests of the \<open>chromium\<close> profile, and it does the same
  whatever argument it is given. Nor does \<open>BASE_URL\<close> drive the address the tests go to:
  with \<open>BASE_URL\<close> set, the configuration still has its fixed address.
\<close>

theorem operator_scripts_counterexample:
  "Show_help \<notin> set (run_ps1 example_ps1_world []) \<and>
   execs (run_ps1 example_ps1_world []) =
     [[''npx'', ''playwright'', ''test'', ''--project=chromium'', ''--quiet'']] \<and>
   run_ps1 example_ps1_world [''mobile''] = run_ps1 example_ps1_world [''help''] \<and>
   baseURL (playwright_config [''BASE_URL'' \<mapsto> ''https://www.qualtiva.solutions''])
     = ''https://dev.analytiqa.cloud''"
  by (simp add: run_ps1_def example_ps1_world_def playwright_config_def)

text \<open>
  C6, amended. The bash runner shows its help text, and starts nothing, when its first
  argument is absent, empty, \<open>help\<close>, or none of the listed sub-commands. When node, npm
  and \<open>package.json\<close> are there and \<open>mkdir -p ./junit-results\<close> succeeds, each of \<open>all\<close>,
  \<open>desktop\<close>, \<open>mobile\<close>, \<open>performance\<close>, \<open>accessibility\<close>, \<open>best-practices\<close>,
  \<open>cross-browser\<close> and \<open>mobile-responsive\<close> runs, after that \<open>mkdir\<close>, exactly \<open>npm run\<close>
  with its script, and the runner exits with the status of \<open>npm run\<close>; it exports the
  two variables of the JUnit reporter and nothing else, and it prints \<open>BASE_URL\<close> when
  that is set and not empty: the runner neither exports \<open>BASE_URL\<close> nor puts it on a
  command line. When the directory cannot be made, \<open>npm run\<close> is not started and the
  runner exits with a status that is not 0. With npx there as well, \<open>ci\<close> runs, after the
  \<open>mkdir\<close>, exactly \<open>npx playwright test\<close> with the three reporters. \<open>setup\<close> starts
  with \<open>npm install\<close>. \<open>report\<close> runs \<open>npm run report\<close> when there is a report and npm is
  there. \<open>run.ps1\<close> reads no argument: whatever it is given, it starts (when npx is
  found) \<open>npx playwright test --project=chromium --quiet\<close>, and it never shows a help
  text.
\<close>

theorem operator_scripts:
  "((arg = None \<or> arg = Some [] \<or> arg = Some ''help'' \<or>
       (\<exists>a. arg = Some a \<and> a \<notin> set sub_commands)) \<longrightarrow>
      run_sh w arg = ([Show_help], 0)) \<and>
   (ready w \<and> results_dir_made w \<longrightarrow>
      (\<forall>(c, s, d) \<in> set test_scripts.
         execs (fst (run_sh w (Some c))) =
           [[''mkdir'', ''-p'', ''./junit-results''], [''npm'', ''run'', s]] \<and>
         snd (run_sh w (Some c)) = exit_status w [''npm'', ''run'', s] \<and>
         exports (fst (run_sh w (Some c))) =
           [(''PLAYWRIGHT_JUNIT_OUTPUT_DIR'', ''./junit-results''),
            (''PLAYWRIGHT_JUNIT_OUTPUT_NAME'', ''junit-'' @ date_stamp w @ ''.xml'')] \<and>
         (\<forall>url. BASE_URL w = Some url \<and> url \<noteq> [] \<longrightarrow>
            Print_status (''Using BASE_URL: '' @ url) \<in> set (fst (run_sh w (Some c)))))) \<and>
   (ready w \<and> \<not> results_dir_made w \<longrightarrow>
      (\<forall>(c, s, d) \<in> set test_scripts.
         [''npm'', ''run'', s] \<notin> set (execs (fst (run_sh w (Some c)))) \<and>
         snd (run_sh w (Some c)) \<noteq> 0)) \<and>
   (ready w \<and> results_dir_made w \<and> installed w ''npx'' \<longrightarrow>
      execs (fst (run_sh w (Some ''ci''))) =
        [[''mkdir'', ''-p'', ''./junit-results''],
         [''npx'', ''playwright'', ''test'', ''--reporter=html,junit,json'']]) \<and>
   (ready w \<longrightarrow> hd (execs (fst (run_sh w (Some ''setup'')))) = [''npm'', ''install'']) \<and>
   (has_report w \<and> installed w ''npm'' \<longrightarrow>
      execs (fst (run_sh w (Some ''report''))) = [[''npm'', ''run'', ''report'']]) \<and>
   map fst test_scripts =
     [''all'', ''desktop'', ''mobile'', ''performance'', ''accessibility'', ''best-practices'',
      ''cross-browser'', ''mobile-responsive''] \<and>
   run_ps1 pw args = run_ps1 pw [] \<and>
   (npx_found pw \<longrightarrow>
      execs (run_ps1 pw args) =
        [[''npx'', ''playwright'', ''test'', ''--project=chromium'', ''--quiet'']]) \<and>
   Show_help \<notin> set (run_ps1 pw args)"
proof -
  have b: "\<forall>(c, s, d) \<in> set test_scripts.
         execs (fst (run_sh w (Some c))) =
           [[''mkdir'', ''-p'', ''./junit-results''], [''npm'', ''run'', s]] \<and>
         snd (run_sh w (Some c)) = exit_status w [''npm'', ''run'', s] \<and>
         exports (fst (run_sh w (Some c))) =
           [(''PLAYWRIGHT_JUNIT_OUTPUT_DIR'', ''./junit-results''),
            (''PLAYWRIGHT_JUNIT_OUTPUT_NAME'', ''junit-'' @ date_stamp w @ ''.xml'')] \<and>
         (\<forall>url. BASE_URL w = Some url \<and> url \<noteq> [] \<longrightarrow>
            Print_status (''Using BASE_URL: '' @ url) \<in> set (fst (run_sh w (Some c))))"
    if rm: "ready w \<and> results_dir_made w"
  proof (rule ballI)
    fix x assume x: "x \<in> set test_scripts"
    obtain c s d where e: "x = (c, s, d)" by (cases x) auto
    from x e have m: "(c, s, d) \<in> set test_scripts" by simp
    note k = run_sh_tests [OF rm [THEN conjunct1] rm [THEN conjunct2] m]
    have "\<forall>url. BASE_URL w = Some url \<and> url \<noteq> [] \<longrightarrow>
            Print_status (''Using BASE_URL: '' @ url) \<in> set (fst (run_sh w (Some c)))"
    proof (intro allI impI)
      fix url assume "BASE_URL w = Some url \<and> url \<noteq> []"
      then have "BASE_URL w = Some url" "url \<noteq> []" by simp_all
      then show "Print_status (''Using BASE_URL: '' @ url) \<in> set (fst (run_sh w (Some c)))"
        by (rule k(4))
    qed
    with k(1) k(2) k(3) show "case x of (c, s, d) \<Rightarrow>
         execs (fst (run_sh w (Some c))) =
           [[''mkdir'', ''-p'', ''./junit-results''], [''npm'', ''run'', s]] \<and>
         snd (run_sh w (Some c)) = exit_status w [''npm'', ''run'', s] \<and>
         exports (fst (run_sh w (Some c))) =
           [(''PLAYWRIGHT_JUNIT_OUTPUT_DIR'', ''./junit-results''),
            (''PLAYWRIGHT_JUNIT_OUTPUT_NAME'', ''junit-'' @ date_stamp w @ ''.xml'')] \<and>
         (\<forall>url. BASE_URL w = Some url \<and> url \<noteq> [] \<longrightarrow>
            Print_status (''Using BASE_URL: '' @ url) \<in> set (fst (run_sh w (Some c))))"
      unfolding e by simp
  qed
  have n: "\<forall>(c, s, d) \<in> set test_scripts.
         [''npm'', ''run'', s] \<notin> set (execs (fst (run_sh w (Some c)))) \<and>
         snd (run_sh w (Some c)) \<noteq> 0"
    if rm: "ready w \<and> \<not> results_dir_made w"
  proof (rule ballI)
    fix x assume x: "x \<in> set test_scripts"
    obtain c s d where e: "x = (c, s, d)" by (cases x) auto
    from x e have m: "(c, s, d) \<in> set test_scripts" by simp
    note k = run_sh_tests_not_made [OF rm [THEN conjunct1] rm [THEN conjunct2] m]
    from k(1) k(2) show "case x of (c, s, d) \<Rightarrow>
         [''npm'', ''run'', s] \<notin> set (execs (fst (run_sh w (Some c)))) \<and>
         snd (run_sh w (Some c)) \<noteq> 0"
      unfolding e by simp
  qed
  have ci: "execs (fst (run_sh w (Some ''ci''))) =
        [[''mkdir'', ''-p'', ''./junit-results''],
         [''npx'', ''playwright'', ''test'', ''--reporter=html,junit,json'']]"
    if h: "ready w \<and> results_dir_made w \<and> installed w ''npx''"
    by (rule run_sh_ci [OF h [THEN conjunct1] h [THEN conjunct2, THEN conjunct1]
          h [THEN conjunct2, THEN conjunct2]])
  have rp: "execs (fst (run_sh w (Some ''report''))) = [[''npm'', ''run'', ''report'']]"
    if h: "has_report w \<and> installed w ''npm''"
    by (rule run_sh_report [OF h [THEN conjunct1] h [THEN conjunct2]])
  have c: "map fst test_scripts =
     [''all'', ''desktop'', ''mobile'', ''performance'', ''accessibility'', ''best-practices'',
      ''cross-browser'', ''mobile-responsive'']"
    by (simp add: test_scripts_def)
  have d: "run_ps1 pw args = run_ps1 pw []"
    "Show_help \<notin> set (run_ps1 pw args)"
    by (simp_all add: run_ps1_def)
  have x: "execs (run_ps1 pw args) =
       [[''npx'', ''playwright'', ''test'', ''--project=chromium'', ''--quiet'']]"
    if "npx_found pw"
    using that by (simp add: run_ps1_def execs_append)
  show ?thesis
    apply (intro conjI impI)
             apply (erule run_sh_help)
            apply (erule b)
           apply (erule n)
          apply (erule ci)
         apply (erule run_sh_setup)
        apply (erule rp)
       apply (rule c)
      apply (rule d(1))
     apply (erule x)
    apply (rule d(2))
    done
qed

theorem operator_scripts_witness:
  "run_sh example_sh_world None = ([Show_help], 0) \<and>
   run_sh example_sh_world (Some ''deploy'') = ([Show_help], 0) \<and>
   ready example_sh_world \<and> results_dir_made example_sh_world \<and>
   execs (fst (run_sh example_sh_world (Some ''mobile''))) =
     [[''mkdir'', ''-p'', ''./junit-results''], [''npm'', ''run'', ''test:mobile'']] \<and>
   snd (run_sh example_sh_world (Some ''mobile'')) = 0 \<and>
   Print_status ''Using BASE_URL: https://www.qualtiva.solutions''
     \<in> set (fst (run_sh example_sh_world (Some ''mobile''))) \<and>
   execs (fst (run_sh example_sh_world (Some ''ci''))) =
     [[''mkdir'', ''-p'', ''./junit-results''],
      [''npx'', ''playwright'', ''test'', ''--reporter=html,junit,json'']] \<and>
   ready read_only_sh_world \<and> \<not> results_dir_made read_only_sh_world \<and>
   [''npm'', ''run'', ''test:mobile'']
     \<notin> set (execs (fst (run_sh read_only_sh_world (Some ''mobile'')))) \<and>
   snd (run_sh read_only_sh_world (Some ''mobile'')) \<noteq> 0 \<and>
   npx_found example_ps1_world \<and>
   execs (run_ps1 example_ps1_world [''mobile'']) =
     [[''npx'', ''playwright'', ''test'', ''--project=chromium'', ''--quiet'']]"
proof -
  have r: "ready example_sh_world" "results_dir_made example_sh_world"
    "installed example_sh_world ''npx''"
    by (simp_all add: ready_def results_dir_made_def example_sh_world_def)
  have ro: "ready read_only_sh_world" "\<not> results_dir_made read_only_sh_world"
    by (simp_all add: ready_def results_dir_made_def read_only_sh_world_def)
  have u: "BASE_URL example_sh_world = Some ''https://www.qualtiva.solutions'' \<and>
           ''https://www.qualtiva.solutions'' \<noteq> []"
    by (simp add: example_sh_world_def)
  have n: "''deploy'' \<notin> set sub_commands"
    by (simp add: sub_commands_def)
  have m: "(''mobile'', ''test:mobile'', ''Mobile browser tests'') \<in> set test_scripts"
    by (simp add: test_scripts_def)
  have z: "exit_status example_sh_world [''npm'', ''run'', ''test:mobile''] = 0"
    by (simp add: example_sh_world_def)
  note k1 = operator_scripts [of None example_sh_world example_ps1_world "[''mobile'']"]
  note k2 = operator_scripts [of "Some ''deploy''" example_sh_world example_ps1_world "[''mobile'']"]
  note k3 = operator_scripts [of None read_only_sh_world example_ps1_world "[''mobile'']"]
  have h1: "run_sh example_sh_world None = ([Show_help], 0)"
    by (rule k1 [THEN conjunct1, THEN mp]) simp
  have h2: "run_sh example_sh_world (Some ''deploy'') = ([Show_help], 0)"
    by (rule k2 [THEN conjunct1, THEN mp]) (use n in simp)
  note t = bspec [OF k1 [THEN conjunct2, THEN conjunct1, THEN mp, OF conjI [OF r(1) r(2)]] m]
  have e1: "execs (fst (run_sh example_sh_world (Some ''mobile'')))
        = [[''mkdir'', ''-p'', ''./junit-results''], [''npm'', ''run'', ''test:mobile'']]"
    using t by simp
  have e2: "snd (run_sh example_sh_world (Some ''mobile'')) = 0"
    using t z by simp
  have e3: "Print_status ''Using BASE_URL: https://www.qualtiva.solutions''
     \<in> set (fst (run_sh example_sh_world (Some ''mobile'')))"
    using t u by simp
  note ci = k1 [THEN conjunct2, THEN conjunct2, THEN conjunct2, THEN conjunct1, THEN mp,
      OF conjI [OF r(1) conjI [OF r(2) r(3)]]]
  note t' = bspec [OF k3 [THEN conjunct2, THEN conjunct2, THEN conjunct1, THEN mp,
      OF conjI [OF ro(1) ro(2)]] m]
  have f1: "[''npm'', ''run'', ''test:mobile'']
     \<notin> set (execs (fst (run_sh read_only_sh_world (Some ''mobile''))))"
    using t' by simp
  have f2: "snd (run_sh read_only_sh_world (Some ''mobile'')) \<noteq> 0"
    using t' by simp
  have nx: "npx_found example_ps1_world"
    by (simp add: example_ps1_world_def)
  note ps = k1 [THEN conjunct2, THEN conjunct2, THEN conjunct2, THEN conjunct2, THEN conjunct2,
      THEN conjunct2, THEN conjunct2, THEN conjunct2, THEN conjunct1, THEN mp, OF nx]
  show ?thesis by (intro conjI h1 h2 r(1) r(2) e1 e2 e3 ci ro f1 f2 nx ps)
qed


end
